theory Spec2Isabelle
  imports Main "HOL-Library.Sublist"
begin

section \<open>The homework status bot (homework.py)\<close>

text \<open>
  The program polls a review API, formats the status of the latest homework and sends it
  through a messaging bot. The embedding below follows homework.py function by function.
  Effects are explicit: the module-level list \<open>cache_errors\<close>, the logger, the calls of
  \<open>bot.send_message\<close> and of \<open>time.sleep\<close> are fields of a state that every function
  takes and returns; a raised exception is the left injection of a sum.
\<close>

subsection \<open>Values\<close>

text \<open>
  A Python \<open>str\<close> is modelled by its UTF-8 bytes: the encoding is injective and
  self-synchronising, so equality and containment of texts are those of the byte lists.
\<close>

text \<open>A float of a decoded document; the program never computes with one.\<close>

typedecl pyfloat

text \<open>
  What \<open>response.json()\<close> can return. An object is an association list of its
  members.
\<close>

datatype json =
    JNull
  | JBool bool
  | JInt int
  | JFloat pyfloat
  | JStr string
  | JList "json list"
  | JObj "(string \<times> json) list"

text \<open>
  Modelled from the spec: the module \<open>exceptions\<close>, from which homework.py imports
  \<open>SendMessageException\<close>, \<open>ApiResponseException\<close> and
  \<open>ApiResponseStatusException\<close>, is not among the sources. The spec names them as
  three distinct error kinds that the handler of the loop catches, so they are three
  classes that derive from \<open>Exception\<close>; how they derive from one another is left
  open (the parameter \<open>derives\<close> below). The other constructors are the builtin
  classes the program meets, and \<open>Library\<close> for a class of a third-party package
  (requests, telegram), given by its name.
\<close>

datatype exn_class =
    TypeError
  | KeyError
  | IndexError
  | AttributeError
  | SendMessageException
  | ApiResponseException
  | ApiResponseStatusException
  | Library string

text \<open>An exception object: its class and the text it was built with.\<close>

datatype exn = Exn exn_class string

fun class_of :: "exn \<Rightarrow> exn_class" where
  "class_of (Exn c m) = c"

text \<open>
  What homework.py uses and does not define. \<open>derives c d\<close> says that class \<open>c\<close>
  is derived, directly or not, from the different class \<open>d\<close>: the inheritance between
  exception classes is a parameter, since the module that declares three of them is
  missing. \<open>py_str\<close> is the builtin \<open>str()\<close> on a decoded value that is not a
  string, and \<open>str_exn\<close> is \<open>str()\<close> on an exception object.
\<close>

record runtime =
  derives :: "exn_class \<Rightarrow> exn_class \<Rightarrow> bool"
  py_str :: "json \<Rightarrow> string"
  str_exn :: "exn \<Rightarrow> string"

text \<open>Whether \<open>except d:\<close> catches the exception \<open>e\<close>.\<close>

definition catches :: "runtime \<Rightarrow> exn_class \<Rightarrow> exn \<Rightarrow> bool" where
  "catches rt d e = (class_of e = d \<or> derives rt (class_of e) d)"

text \<open>
  A replacement field \<open>{v}\<close> of an f-string: a string is inserted as it is.
\<close>

definition format_value :: "runtime \<Rightarrow> json \<Rightarrow> string" where
  "format_value rt v = (case v of JStr s \<Rightarrow> s | _ \<Rightarrow> py_str rt v)"

text \<open>The methods of the logger that the program calls.\<close>

datatype log_call = Debug | Info | Error | Exception | Critical

text \<open>The request of line 62: the endpoint, the header and the parameter.\<close>

record request =
  url :: string
  authorization :: string
  from_date :: int

text \<open>
  The state: the list \<open>cache_errors\<close> (line 42), what was logged, the requests handed
  to \<open>requests.get\<close>, the texts handed to \<open>bot.send_message\<close> (\<open>attempts\<close>),
  those of the calls that returned (\<open>delivered\<close>), and the arguments of
  \<open>time.sleep\<close>.
\<close>

record state =
  cache_errors :: "string list"
  log :: "(log_call \<times> string) list"
  requests :: "request list"
  attempts :: "string list"
  delivered :: "string list"
  sleeps :: "int list"

definition logger :: "log_call \<Rightarrow> string \<Rightarrow> state \<Rightarrow> state" where
  "logger lvl m st = st\<lparr>log := log st @ [(lvl, m)]\<rparr>"

text \<open>The environment variables read at lines 21 to 24, and the imported endpoint.\<close>

record config =
  TELEGRAM_TOKEN :: "string option"
  TELEGRAM_CHAT_ID :: "string option"
  PRACTICUM_TOKEN :: "string option"
  ENDPOINT :: string

definition TELEGRAM_RETRY_TIME :: int where
  "TELEGRAM_RETRY_TIME = 600"

definition LAST_HOMEWORK_LIST_ID :: int where
  "LAST_HOMEWORK_LIST_ID = 0"

text \<open>Line 28: the f-string renders a missing token as \<open>None\<close>.\<close>

definition HEADERS :: "config \<Rightarrow> string" where
  "HEADERS cfg = ''OAuth '' @ (case PRACTICUM_TOKEN cfg of None \<Rightarrow> ''None'' | Some t \<Rightarrow> t)"

subsection \<open>The texts of the program\<close>

text \<open>HOMEWORK_VERDICTS['approved']: no remarks.\<close>

definition verdict_approved :: string where
  "verdict_approved =
     [CHR 0xD0, CHR 0x97, CHR 0xD0, CHR 0xB0, CHR 0xD0, CHR 0xBC, CHR 0xD0, CHR 0xB5,
      CHR 0xD1, CHR 0x87, CHR 0xD0, CHR 0xB0, CHR 0xD0, CHR 0xBD, CHR 0xD0, CHR 0xB8,
      CHR 0xD0, CHR 0xB9] @
     '' '' @
     [CHR 0xD0, CHR 0xBD, CHR 0xD0, CHR 0xB5, CHR 0xD1, CHR 0x82] @
     ''.''"

text \<open>HOMEWORK_VERDICTS['reviewing']: the reviewer is checking the work.\<close>

definition verdict_reviewing :: string where
  "verdict_reviewing =
     [CHR 0xD0, CHR 0xA0, CHR 0xD0, CHR 0xB5, CHR 0xD0, CHR 0xB2, CHR 0xD1, CHR 0x8C,
      CHR 0xD1, CHR 0x8E, CHR 0xD0, CHR 0xB2, CHR 0xD0, CHR 0xB5, CHR 0xD1, CHR 0x80] @
     '' '' @
     [CHR 0xD0, CHR 0xBF, CHR 0xD1, CHR 0x80, CHR 0xD0, CHR 0xBE, CHR 0xD0, CHR 0xB2,
      CHR 0xD0, CHR 0xB5, CHR 0xD1, CHR 0x80, CHR 0xD1, CHR 0x8F, CHR 0xD0, CHR 0xB5,
      CHR 0xD1, CHR 0x82] @
     '' '' @
     [CHR 0xD1, CHR 0x80, CHR 0xD0, CHR 0xB0, CHR 0xD0, CHR 0xB1, CHR 0xD0, CHR 0xBE,
      CHR 0xD1, CHR 0x82, CHR 0xD1, CHR 0x83] @
     ''.''"

text \<open>HOMEWORK_VERDICTS['rejected']: there are remarks.\<close>

definition verdict_rejected :: string where
  "verdict_rejected =
     [CHR 0xD0, CHR 0x95, CHR 0xD1, CHR 0x81, CHR 0xD1, CHR 0x82, CHR 0xD1, CHR 0x8C] @
     '' '' @
     [CHR 0xD0, CHR 0xB7, CHR 0xD0, CHR 0xB0, CHR 0xD0, CHR 0xBC, CHR 0xD0, CHR 0xB5,
      CHR 0xD1, CHR 0x87, CHR 0xD0, CHR 0xB0, CHR 0xD0, CHR 0xBD, CHR 0xD0, CHR 0xB8,
      CHR 0xD1, CHR 0x8F] @
     ''.''"

text \<open>line 50: failure while sending the message to the user.\<close>

definition msg_send_failed :: string where
  "msg_send_failed =
     [CHR 0xD0, CHR 0xA1, CHR 0xD0, CHR 0xB1, CHR 0xD0, CHR 0xBE, CHR 0xD0, CHR 0xB9] @
     '' '' @
     [CHR 0xD0, CHR 0xBF, CHR 0xD1, CHR 0x80, CHR 0xD0, CHR 0xB8] @
     '' '' @
     [CHR 0xD0, CHR 0xBE, CHR 0xD1, CHR 0x82, CHR 0xD0, CHR 0xBF, CHR 0xD1, CHR 0x80,
      CHR 0xD0, CHR 0xB0, CHR 0xD0, CHR 0xB2, CHR 0xD0, CHR 0xBA, CHR 0xD0, CHR 0xB5] @
     '' '' @
     [CHR 0xD1, CHR 0x81, CHR 0xD0, CHR 0xBE, CHR 0xD0, CHR 0xBE, CHR 0xD0, CHR 0xB1,
      CHR 0xD1, CHR 0x89, CHR 0xD0, CHR 0xB5, CHR 0xD0, CHR 0xBD, CHR 0xD0, CHR 0xB8,
      CHR 0xD1, CHR 0x8F] @
     '' '' @
     [CHR 0xD0, CHR 0xBF, CHR 0xD0, CHR 0xBE, CHR 0xD0, CHR 0xBB, CHR 0xD1, CHR 0x8C,
      CHR 0xD0, CHR 0xB7, CHR 0xD0, CHR 0xBE, CHR 0xD0, CHR 0xB2, CHR 0xD0, CHR 0xB0,
      CHR 0xD1, CHR 0x82, CHR 0xD0, CHR 0xB5, CHR 0xD0, CHR 0xBB, CHR 0xD1, CHR 0x8E]"

text \<open>line 54: message sent successfully.\<close>

definition msg_sent :: string where
  "msg_sent =
     [CHR 0xD0, CHR 0xA1, CHR 0xD0, CHR 0xBE, CHR 0xD0, CHR 0xBE, CHR 0xD0, CHR 0xB1,
      CHR 0xD1, CHR 0x89, CHR 0xD0, CHR 0xB5, CHR 0xD0, CHR 0xBD, CHR 0xD0, CHR 0xB8,
      CHR 0xD0, CHR 0xB5] @
     '' '' @
     [CHR 0xD1, CHR 0x83, CHR 0xD1, CHR 0x81, CHR 0xD0, CHR 0xBF, CHR 0xD0, CHR 0xB5,
      CHR 0xD1, CHR 0x88, CHR 0xD0, CHR 0xBD, CHR 0xD0, CHR 0xBE] @
     '' '' @
     [CHR 0xD0, CHR 0xBE, CHR 0xD1, CHR 0x82, CHR 0xD0, CHR 0xBF, CHR 0xD1, CHR 0x80,
      CHR 0xD0, CHR 0xB0, CHR 0xD0, CHR 0xB2, CHR 0xD0, CHR 0xBB, CHR 0xD0, CHR 0xB5,
      CHR 0xD0, CHR 0xBD, CHR 0xD0, CHR 0xBE]"

text \<open>line 65, the text before the status code: endpoint error, status code.\<close>

definition msg_status_code :: string where
  "msg_status_code =
     [CHR 0xD0, CHR 0x9E, CHR 0xD1, CHR 0x88, CHR 0xD0, CHR 0xB8, CHR 0xD0, CHR 0xB1,
      CHR 0xD0, CHR 0xBA, CHR 0xD0, CHR 0xB0] @
     '' '' @
     [CHR 0xD1, CHR 0x8D, CHR 0xD0, CHR 0xBD, CHR 0xD0, CHR 0xB4, CHR 0xD0, CHR 0xBF,
      CHR 0xD0, CHR 0xBE, CHR 0xD0, CHR 0xB8, CHR 0xD0, CHR 0xBD, CHR 0xD1, CHR 0x82,
      CHR 0xD0, CHR 0xB0] @
     ''. '' @
     [CHR 0xD0, CHR 0xA1, CHR 0xD1, CHR 0x82, CHR 0xD0, CHR 0xB0, CHR 0xD1, CHR 0x82,
      CHR 0xD1, CHR 0x83, CHR 0xD1, CHR 0x81] @
     '' '' @
     [CHR 0xD0, CHR 0xBA, CHR 0xD0, CHR 0xBE, CHR 0xD0, CHR 0xB4] @
     ''  - ''"

text \<open>line 69: the request failed, the endpoint is unavailable.\<close>

definition msg_unreachable :: string where
  "msg_unreachable =
     [CHR 0xD0, CHR 0x9D, CHR 0xD0, CHR 0xB5] @
     '' '' @
     [CHR 0xD1, CHR 0x83, CHR 0xD0, CHR 0xB4, CHR 0xD0, CHR 0xB0, CHR 0xD0, CHR 0xBB,
      CHR 0xD0, CHR 0xBE, CHR 0xD1, CHR 0x81, CHR 0xD1, CHR 0x8C] @
     '' '' @
     [CHR 0xD0, CHR 0xB2, CHR 0xD1, CHR 0x8B, CHR 0xD0, CHR 0xBF, CHR 0xD0, CHR 0xBE,
      CHR 0xD0, CHR 0xBB, CHR 0xD0, CHR 0xBD, CHR 0xD0, CHR 0xB8, CHR 0xD1, CHR 0x82,
      CHR 0xD1, CHR 0x8C] @
     '' '' @
     [CHR 0xD0, CHR 0xB7, CHR 0xD0, CHR 0xB0, CHR 0xD0, CHR 0xBF, CHR 0xD1, CHR 0x80,
      CHR 0xD0, CHR 0xBE, CHR 0xD1, CHR 0x81] @
     ''. '' @
     [CHR 0xD0, CHR 0xAD, CHR 0xD0, CHR 0xBD, CHR 0xD0, CHR 0xB4, CHR 0xD0, CHR 0xBF,
      CHR 0xD0, CHR 0xBE, CHR 0xD0, CHR 0xB8, CHR 0xD0, CHR 0xBD, CHR 0xD1, CHR 0x82] @
     '' API '' @
     [CHR 0xD0, CHR 0xAF, CHR 0xD0, CHR 0xBD, CHR 0xD0, CHR 0xB4, CHR 0xD0, CHR 0xB5,
      CHR 0xD0, CHR 0xBA, CHR 0xD1, CHR 0x81] @
     '' '' @
     [CHR 0xD0, CHR 0xBD, CHR 0xD0, CHR 0xB5, CHR 0xD0, CHR 0xB4, CHR 0xD0, CHR 0xBE,
      CHR 0xD1, CHR 0x81, CHR 0xD1, CHR 0x82, CHR 0xD1, CHR 0x83, CHR 0xD0, CHR 0xBF,
      CHR 0xD0, CHR 0xB5, CHR 0xD0, CHR 0xBD]"

text \<open>line 79: the API answer is being checked.\<close>

definition msg_checking :: string where
  "msg_checking =
     [CHR 0xD0, CHR 0x9F, CHR 0xD1, CHR 0x80, CHR 0xD0, CHR 0xBE, CHR 0xD0, CHR 0xB8,
      CHR 0xD0, CHR 0xB7, CHR 0xD0, CHR 0xB2, CHR 0xD0, CHR 0xBE, CHR 0xD0, CHR 0xB4,
      CHR 0xD0, CHR 0xB8, CHR 0xD1, CHR 0x82, CHR 0xD1, CHR 0x81, CHR 0xD1, CHR 0x8F] @
     '' '' @
     [CHR 0xD0, CHR 0xBF, CHR 0xD1, CHR 0x80, CHR 0xD0, CHR 0xBE, CHR 0xD0, CHR 0xB2,
      CHR 0xD0, CHR 0xB5, CHR 0xD1, CHR 0x80, CHR 0xD0, CHR 0xBA, CHR 0xD0, CHR 0xB0] @
     '' '' @
     [CHR 0xD0, CHR 0xBE, CHR 0xD1, CHR 0x82, CHR 0xD0, CHR 0xB2, CHR 0xD0, CHR 0xB5,
      CHR 0xD1, CHR 0x82, CHR 0xD0, CHR 0xB0] @
     '' API '' @
     [CHR 0xD0, CHR 0xAF, CHR 0xD0, CHR 0xBD, CHR 0xD0, CHR 0xB4, CHR 0xD0, CHR 0xB5,
      CHR 0xD0, CHR 0xBA, CHR 0xD1, CHR 0x81] @
     '' '' @
     [CHR 0xD0, CHR 0xBD, CHR 0xD0, CHR 0xB0] @
     '' '' @
     [CHR 0xD0, CHR 0xBA, CHR 0xD0, CHR 0xBE, CHR 0xD1, CHR 0x80, CHR 0xD1, CHR 0x80,
      CHR 0xD0, CHR 0xB5, CHR 0xD0, CHR 0xBA, CHR 0xD1, CHR 0x82, CHR 0xD0, CHR 0xBD,
      CHR 0xD0, CHR 0xBE, CHR 0xD1, CHR 0x81, CHR 0xD1, CHR 0x82, CHR 0xD1, CHR 0x8C]"

text \<open>lines 82-83, the text before the type: the function takes a dict, given.\<close>

definition msg_not_dict :: string where
  "msg_not_dict =
     [CHR 0xD0, CHR 0xA4, CHR 0xD1, CHR 0x83, CHR 0xD0, CHR 0xBD, CHR 0xD0, CHR 0xBA,
      CHR 0xD1, CHR 0x86, CHR 0xD0, CHR 0xB8, CHR 0xD1, CHR 0x8F] @
     '' '' @
     [CHR 0xD0, CHR 0xBF, CHR 0xD1, CHR 0x80, CHR 0xD0, CHR 0xB8, CHR 0xD0, CHR 0xBD,
      CHR 0xD0, CHR 0xB8, CHR 0xD0, CHR 0xBC, CHR 0xD0, CHR 0xB0, CHR 0xD0, CHR 0xB5,
      CHR 0xD1, CHR 0x82] @
     '' '' @
     [CHR 0xD1, CHR 0x81, CHR 0xD0, CHR 0xBB, CHR 0xD0, CHR 0xBE, CHR 0xD0, CHR 0xB2,
      CHR 0xD0, CHR 0xB0, CHR 0xD1, CHR 0x80, CHR 0xD1, CHR 0x8C] @
     '' '' @
     [CHR 0xD0, CHR 0xB2] @
     '' '' @
     [CHR 0xD0, CHR 0xBA, CHR 0xD0, CHR 0xB0, CHR 0xD1, CHR 0x87, CHR 0xD0, CHR 0xB5,
      CHR 0xD1, CHR 0x81, CHR 0xD1, CHR 0x82, CHR 0xD0, CHR 0xB2, CHR 0xD0, CHR 0xB5] @
     '' '' @
     [CHR 0xD0, CHR 0xB0, CHR 0xD1, CHR 0x80, CHR 0xD0, CHR 0xB3, CHR 0xD1, CHR 0x83,
      CHR 0xD0, CHR 0xBC, CHR 0xD0, CHR 0xB5, CHR 0xD0, CHR 0xBD, CHR 0xD1, CHR 0x82,
      CHR 0xD0, CHR 0xB0] @
     '','' @
     [CHR 0xD0, CHR 0xBF, CHR 0xD0, CHR 0xB5, CHR 0xD1, CHR 0x80, CHR 0xD0, CHR 0xB5,
      CHR 0xD0, CHR 0xB4, CHR 0xD0, CHR 0xB0, CHR 0xD0, CHR 0xBD] @
     '' - ''"

text \<open>line 93: the expected keys are missing from the API answer.\<close>

definition msg_missing_keys :: string where
  "msg_missing_keys =
     [CHR 0xD0, CHR 0x9E, CHR 0xD1, CHR 0x82, CHR 0xD1, CHR 0x81, CHR 0xD1, CHR 0x83,
      CHR 0xD1, CHR 0x82, CHR 0xD1, CHR 0x81, CHR 0xD1, CHR 0x82, CHR 0xD0, CHR 0xB2,
      CHR 0xD1, CHR 0x83, CHR 0xD1, CHR 0x8E, CHR 0xD1, CHR 0x82] @
     '' '' @
     [CHR 0xD0, CHR 0xBE, CHR 0xD0, CHR 0xB6, CHR 0xD0, CHR 0xB8, CHR 0xD0, CHR 0xB4,
      CHR 0xD0, CHR 0xB0, CHR 0xD0, CHR 0xB5, CHR 0xD0, CHR 0xBC, CHR 0xD1, CHR 0x8B,
      CHR 0xD0, CHR 0xB5] @
     '' '' @
     [CHR 0xD0, CHR 0xBA, CHR 0xD0, CHR 0xBB, CHR 0xD1, CHR 0x8E, CHR 0xD1, CHR 0x87,
      CHR 0xD0, CHR 0xB8] @
     '' '' @
     [CHR 0xD0, CHR 0xB2] @
     '' '' @
     [CHR 0xD0, CHR 0xBE, CHR 0xD1, CHR 0x82, CHR 0xD0, CHR 0xB2, CHR 0xD0, CHR 0xB5,
      CHR 0xD1, CHR 0x82, CHR 0xD0, CHR 0xB5] @
     '' API '' @
     [CHR 0xD0, CHR 0xAF, CHR 0xD0, CHR 0xBD, CHR 0xD0, CHR 0xB4, CHR 0xD0, CHR 0xB5,
      CHR 0xD0, CHR 0xBA, CHR 0xD1, CHR 0x81]"

text \<open>line 101: the key homework_name is missing.\<close>

definition msg_no_name :: string where
  "msg_no_name =
     [CHR 0xD0, CHR 0x9A, CHR 0xD0, CHR 0xBB, CHR 0xD1, CHR 0x8E, CHR 0xD1, CHR 0x87] @
     '' homework_name '' @
     [CHR 0xD0, CHR 0xBE, CHR 0xD1, CHR 0x82, CHR 0xD1, CHR 0x81, CHR 0xD1, CHR 0x83,
      CHR 0xD1, CHR 0x82, CHR 0xD1, CHR 0x81, CHR 0xD1, CHR 0x82, CHR 0xD0, CHR 0xB2,
      CHR 0xD1, CHR 0x83, CHR 0xD0, CHR 0xB5, CHR 0xD1, CHR 0x82] @
     '' '' @
     [CHR 0xD0, CHR 0xB2] @
     '' '' @
     [CHR 0xD0, CHR 0xBE, CHR 0xD1, CHR 0x82, CHR 0xD0, CHR 0xB2, CHR 0xD0, CHR 0xB5,
      CHR 0xD1, CHR 0x82, CHR 0xD0, CHR 0xB5] @
     '' '' @
     [CHR 0xD0, CHR 0xBE, CHR 0xD1, CHR 0x82] @
     '' API '' @
     [CHR 0xD0, CHR 0xAF, CHR 0xD0, CHR 0xBD, CHR 0xD0, CHR 0xB4, CHR 0xD0, CHR 0xB5,
      CHR 0xD0, CHR 0xBA, CHR 0xD1, CHR 0x81]"

text \<open>line 105, the default of reviewer_comment: no comment.\<close>

definition no_comment :: string where
  "no_comment =
     [CHR 0xD0, CHR 0xBA, CHR 0xD0, CHR 0xBE, CHR 0xD0, CHR 0xBC, CHR 0xD0, CHR 0xBC,
      CHR 0xD0, CHR 0xB5, CHR 0xD0, CHR 0xBD, CHR 0xD1, CHR 0x82, CHR 0xD0, CHR 0xB0] @
     '' '' @
     [CHR 0xD0, CHR 0xBD, CHR 0xD0, CHR 0xB5, CHR 0xD1, CHR 0x82]"

text \<open>lines 109-110, the text before the status: undocumented review status.\<close>

definition msg_undocumented :: string where
  "msg_undocumented =
     [CHR 0xD0, CHR 0x9D, CHR 0xD0, CHR 0xB5, CHR 0xD0, CHR 0xB4, CHR 0xD0, CHR 0xBE,
      CHR 0xD0, CHR 0xBA, CHR 0xD1, CHR 0x83, CHR 0xD0, CHR 0xBC, CHR 0xD0, CHR 0xB5,
      CHR 0xD0, CHR 0xBD, CHR 0xD1, CHR 0x82, CHR 0xD0, CHR 0xB8, CHR 0xD1, CHR 0x80,
      CHR 0xD0, CHR 0xBE, CHR 0xD0, CHR 0xB2, CHR 0xD0, CHR 0xB0, CHR 0xD0, CHR 0xBD,
      CHR 0xD0, CHR 0xBD, CHR 0xD1, CHR 0x8B, CHR 0xD0, CHR 0xB9] @
     '' '' @
     [CHR 0xD1, CHR 0x81, CHR 0xD1, CHR 0x82, CHR 0xD0, CHR 0xB0, CHR 0xD1, CHR 0x82,
      CHR 0xD1, CHR 0x83, CHR 0xD1, CHR 0x81] @
     '' '' @
     [CHR 0xD0, CHR 0xBF, CHR 0xD1, CHR 0x80, CHR 0xD0, CHR 0xBE, CHR 0xD0, CHR 0xB2,
      CHR 0xD0, CHR 0xB5, CHR 0xD1, CHR 0x80, CHR 0xD0, CHR 0xBA, CHR 0xD0, CHR 0xB8,
      CHR 0xD0, CHR 0xB2] @
     '' '' @
     [CHR 0xD0, CHR 0xBE, CHR 0xD1, CHR 0x82, CHR 0xD0, CHR 0xB2, CHR 0xD0, CHR 0xB5,
      CHR 0xD1, CHR 0x82, CHR 0xD0, CHR 0xB5] @
     '' API '' @
     [CHR 0xD0, CHR 0xAF, CHR 0xD0, CHR 0xBD, CHR 0xD0, CHR 0xB4, CHR 0xD0, CHR 0xB5,
      CHR 0xD0, CHR 0xBA, CHR 0xD1, CHR 0x81] @
     '' - ''"

text \<open>line 119, before the name: work.\<close>

definition txt_work :: string where
  "txt_work =
     [CHR 0xD0, CHR 0xA0, CHR 0xD0, CHR 0xB0, CHR 0xD0, CHR 0xB1, CHR 0xD0, CHR 0xBE,
      CHR 0xD1, CHR 0x82, CHR 0xD0, CHR 0xB0] @
     '' - '' @
     [CHR 0x22]"

text \<open>line 119, after the name.\<close>

definition txt_work_end :: string where
  "txt_work_end =
     [CHR 0x22] @
     ''.'' @
     [CHR 0x0A]"

text \<open>line 120: verdict.\<close>

definition txt_verdict :: string where
  "txt_verdict =
     [CHR 0xD0, CHR 0x92, CHR 0xD0, CHR 0xB5, CHR 0xD1, CHR 0x80, CHR 0xD0, CHR 0xB4,
      CHR 0xD0, CHR 0xB8, CHR 0xD0, CHR 0xBA, CHR 0xD1, CHR 0x82] @
     '' - ''"

text \<open>line 121: comment.\<close>

definition txt_comment :: string where
  "txt_comment =
     [CHR 0xD0, CHR 0x9A, CHR 0xD0, CHR 0xBE, CHR 0xD0, CHR 0xBC, CHR 0xD0, CHR 0xBC,
      CHR 0xD0, CHR 0xB5, CHR 0xD0, CHR 0xBD, CHR 0xD1, CHR 0x82, CHR 0xD0, CHR 0xB0,
      CHR 0xD1, CHR 0x80, CHR 0xD0, CHR 0xB8, CHR 0xD0, CHR 0xB9] @
     '' - ''"

text \<open>
  lines 128, 131, 134, the text before the variable name: the environment variable is
  missing.
\<close>

definition msg_no_env :: string where
  "msg_no_env =
     [CHR 0xD0, CHR 0x9E, CHR 0xD1, CHR 0x82, CHR 0xD1, CHR 0x81, CHR 0xD1, CHR 0x83,
      CHR 0xD1, CHR 0x82, CHR 0xD1, CHR 0x81, CHR 0xD1, CHR 0x82, CHR 0xD0, CHR 0xB2,
      CHR 0xD1, CHR 0x83, CHR 0xD0, CHR 0xB5, CHR 0xD1, CHR 0x82] @
     '' '' @
     [CHR 0xD0, CHR 0xBF, CHR 0xD0, CHR 0xB5, CHR 0xD1, CHR 0x80, CHR 0xD0, CHR 0xB5,
      CHR 0xD0, CHR 0xBC, CHR 0xD0, CHR 0xB5, CHR 0xD0, CHR 0xBD, CHR 0xD0, CHR 0xBD,
      CHR 0xD0, CHR 0xB0, CHR 0xD1, CHR 0x8F] @
     '' '' @
     [CHR 0xD0, CHR 0xBE, CHR 0xD0, CHR 0xBA, CHR 0xD1, CHR 0x80, CHR 0xD1, CHR 0x83,
      CHR 0xD0, CHR 0xB6, CHR 0xD0, CHR 0xB5, CHR 0xD0, CHR 0xBD, CHR 0xD0, CHR 0xB8,
      CHR 0xD1, CHR 0x8F] @
     '' ''"

text \<open>line 150: the program was stopped.\<close>

definition msg_stopped :: string where
  "msg_stopped =
     [CHR 0xD0, CHR 0x9F, CHR 0xD1, CHR 0x80, CHR 0xD0, CHR 0xBE, CHR 0xD0, CHR 0xB3,
      CHR 0xD1, CHR 0x80, CHR 0xD0, CHR 0xB0, CHR 0xD0, CHR 0xBC, CHR 0xD0, CHR 0xBC,
      CHR 0xD0, CHR 0xB0] @
     '' '' @
     [CHR 0xD0, CHR 0xBF, CHR 0xD1, CHR 0x80, CHR 0xD0, CHR 0xB8, CHR 0xD0, CHR 0xBD,
      CHR 0xD1, CHR 0x83, CHR 0xD0, CHR 0xB4, CHR 0xD0, CHR 0xB8, CHR 0xD1, CHR 0x82,
      CHR 0xD0, CHR 0xB5, CHR 0xD0, CHR 0xBB, CHR 0xD1, CHR 0x8C, CHR 0xD0, CHR 0xBD,
      CHR 0xD0, CHR 0xBE] @
     '' '' @
     [CHR 0xD0, CHR 0xBE, CHR 0xD1, CHR 0x81, CHR 0xD1, CHR 0x82, CHR 0xD0, CHR 0xB0,
      CHR 0xD0, CHR 0xBD, CHR 0xD0, CHR 0xBE, CHR 0xD0, CHR 0xB2, CHR 0xD0, CHR 0xBB,
      CHR 0xD0, CHR 0xB5, CHR 0xD0, CHR 0xBD, CHR 0xD0, CHR 0xB0] @
     ''.''"

text \<open>line 162: the API answer holds no new statuses.\<close>

definition msg_no_new :: string where
  "msg_no_new =
     [CHR 0xD0, CHR 0x92] @
     '' '' @
     [CHR 0xD0, CHR 0xBE, CHR 0xD1, CHR 0x82, CHR 0xD0, CHR 0xB2, CHR 0xD0, CHR 0xB5,
      CHR 0xD1, CHR 0x82, CHR 0xD0, CHR 0xB5] @
     '' API '' @
     [CHR 0xD0, CHR 0xAF, CHR 0xD0, CHR 0xBD, CHR 0xD0, CHR 0xB4, CHR 0xD0, CHR 0xB5,
      CHR 0xD0, CHR 0xBA, CHR 0xD1, CHR 0x81] @
     '' '' @
     [CHR 0xD0, CHR 0xBE, CHR 0xD1, CHR 0x82, CHR 0xD1, CHR 0x81, CHR 0xD1, CHR 0x83,
      CHR 0xD1, CHR 0x82, CHR 0xD1, CHR 0x81, CHR 0xD1, CHR 0x82, CHR 0xD0, CHR 0xB2,
      CHR 0xD1, CHR 0x83, CHR 0xD1, CHR 0x8E, CHR 0xD1, CHR 0x82] @
     '' '' @
     [CHR 0xD0, CHR 0xBD, CHR 0xD0, CHR 0xBE, CHR 0xD0, CHR 0xB2, CHR 0xD1, CHR 0x8B,
      CHR 0xD0, CHR 0xB5] @
     '' '' @
     [CHR 0xD1, CHR 0x81, CHR 0xD1, CHR 0x82, CHR 0xD0, CHR 0xB0, CHR 0xD1, CHR 0x82,
      CHR 0xD1, CHR 0x83, CHR 0xD1, CHR 0x81, CHR 0xD1, CHR 0x8B]"

text \<open>line 165, the text before the error: program failure.\<close>

definition msg_failure :: string where
  "msg_failure =
     [CHR 0xD0, CHR 0xA1, CHR 0xD0, CHR 0xB1, CHR 0xD0, CHR 0xBE, CHR 0xD0, CHR 0xB9] @
     '' '' @
     [CHR 0xD0, CHR 0xB2] @
     '' '' @
     [CHR 0xD1, CHR 0x80, CHR 0xD0, CHR 0xB0, CHR 0xD0, CHR 0xB1, CHR 0xD0, CHR 0xBE,
      CHR 0xD1, CHR 0x82, CHR 0xD0, CHR 0xB5] @
     '' '' @
     [CHR 0xD0, CHR 0xBF, CHR 0xD1, CHR 0x80, CHR 0xD0, CHR 0xBE, CHR 0xD0, CHR 0xB3,
      CHR 0xD1, CHR 0x80, CHR 0xD0, CHR 0xB0, CHR 0xD0, CHR 0xBC, CHR 0xD0, CHR 0xBC,
      CHR 0xD1, CHR 0x8B] @
     '': ''"
definition HOMEWORK_VERDICTS :: "(string \<times> string) list" where
  "HOMEWORK_VERDICTS =
     [(''approved'', verdict_approved),
      (''reviewing'', verdict_reviewing),
      (''rejected'', verdict_rejected)]"

subsection \<open>The outside world\<close>

text \<open>
  A bot is what \<open>bot.send_message(TELEGRAM_CHAT_ID, text)\<close> does with a text: it returns
  (\<open>None\<close>) or raises.
\<close>

type_synonym bot = "string \<Rightarrow> exn option"

text \<open>What \<open>requests.get\<close> answers.\<close>

record response =
  status_code :: int
  json_body :: "exn + json"

text \<open>
  What one pass of the loop meets: the answer to the request, the clock read at line 59,
  the text of \<open>datetime.now().strftime(...)\<close> at line 116, the bot of line 155, the bot
  made inside \<open>send_error_message\<close>, and the clock read at line 160.
\<close>

record env =
  requests_get :: "request \<Rightarrow> exn + response"
  clock :: int
  now_text :: string
  status_bot :: bot
  error_bot :: bot
  clock_after :: int

subsection \<open>The functions of homework.py\<close>

text \<open>Lines 45 to 54.\<close>

definition send_message :: "runtime \<Rightarrow> bot \<Rightarrow> string \<Rightarrow> state \<Rightarrow> (exn + unit) \<times> state" where
  "send_message rt b message st =
     (let st1 = st\<lparr>attempts := attempts st @ [message]\<rparr> in
      case b message of
        Some e \<Rightarrow>
          if catches rt SendMessageException e
          then (Inl (Exn SendMessageException msg_send_failed),
                logger Exception msg_send_failed st1)
          else (Inl e, st1)
      | None \<Rightarrow>
          (Inr (), logger Info msg_sent (st1\<lparr>delivered := delivered st1 @ [message]\<rparr>)))"

text \<open>
  Line 59: \<open>current_timestamp or int(time.time())\<close>; \<open>None\<close> and
  \<open>0\<close> are false.
\<close>

definition timestamp_or_now :: "int option \<Rightarrow> int \<Rightarrow> int" where
  "timestamp_or_now current_timestamp now =
     (case current_timestamp of
        None \<Rightarrow> now
      | Some t \<Rightarrow> if t \<noteq> 0 then t else now)"

text \<open>The request that \<open>get_api_answer\<close> issues.\<close>

definition api_request :: "config \<Rightarrow> env \<Rightarrow> int option \<Rightarrow> request" where
  "api_request cfg ev current_timestamp =
     \<lparr>url = ENDPOINT cfg, authorization = HEADERS cfg,
      from_date = timestamp_or_now current_timestamp (clock ev)\<rparr>"

text \<open>
  Lines 68 to 71: the handler of the \<open>try\<close> of \<open>get_api_answer\<close>.
\<close>

definition api_except :: "runtime \<Rightarrow> exn \<Rightarrow> state \<Rightarrow> (exn + json) \<times> state" where
  "api_except rt e st =
     (if catches rt ApiResponseException e
      then (Inl (Exn ApiResponseException msg_unreachable), logger Exception msg_unreachable st)
      else (Inl e, st))"

text \<open>Lines 57 to 71.\<close>

definition get_api_answer ::
  "runtime \<Rightarrow> config \<Rightarrow> env \<Rightarrow> int option \<Rightarrow> state \<Rightarrow> (exn + json) \<times> state" where
  "get_api_answer rt cfg ev current_timestamp st =
     (let q = api_request cfg ev current_timestamp;
          st0 = st\<lparr>requests := requests st @ [q]\<rparr>
      in case requests_get ev q of
           Inl e \<Rightarrow> api_except rt e st0
         | Inr r \<Rightarrow>
             if status_code r = 200
             then (case json_body r of
                     Inl e \<Rightarrow> api_except rt e st0
                   | Inr v \<Rightarrow> (Inr v, st0))
             else (let message = msg_status_code @ py_str rt (JInt (status_code r)) in
                   api_except rt (Exn ApiResponseStatusException message)
                     (logger Error message st0)))"

text \<open>
  The name of the type of a decoded value, and \<open>type(v)\<close> in an f-string.
\<close>

fun type_name :: "json \<Rightarrow> string" where
  "type_name JNull = ''NoneType''"
| "type_name (JBool b) = ''bool''"
| "type_name (JInt i) = ''int''"
| "type_name (JFloat f) = ''float''"
| "type_name (JStr s) = ''str''"
| "type_name (JList xs) = ''list''"
| "type_name (JObj d) = ''dict''"

definition quoted :: "string \<Rightarrow> string" where
  "quoted s = [CHR 0x27] @ s @ [CHR 0x27]"

definition type_text :: "json \<Rightarrow> string" where
  "type_text v = ''<class '' @ quoted (type_name v) @ ''>''"

text \<open>
  \<open>key in d\<close> and \<open>d.get(key)\<close> on a dict; \<open>get\<close>
  gives \<open>None\<close> for a missing key.
\<close>

definition has_key :: "(string \<times> json) list \<Rightarrow> string \<Rightarrow> bool" where
  "has_key d k = (map_of d k \<noteq> None)"

definition dict_get :: "(string \<times> json) list \<Rightarrow> string \<Rightarrow> json \<Rightarrow> json" where
  "dict_get d k dflt = (case map_of d k of None \<Rightarrow> dflt | Some v \<Rightarrow> v)"

text \<open>Lines 74 to 95.\<close>

definition check_response :: "json \<Rightarrow> state \<Rightarrow> (exn + json list) \<times> state" where
  "check_response resp st =
     (let st1 = logger Debug msg_checking st in
      case resp of
        JObj d \<Rightarrow>
          if list_all (has_key d) [''homeworks'', ''current_date'']
          then (case dict_get d ''homeworks'' JNull of
                  JList hs \<Rightarrow> (Inr hs, st1)
                | _ \<Rightarrow> (Inl (Exn KeyError msg_missing_keys), logger Error msg_missing_keys st1))
          else (Inl (Exn KeyError msg_missing_keys), logger Error msg_missing_keys st1)
      | _ \<Rightarrow>
          (let message = msg_not_dict @ type_text resp in
           (Inl (Exn TypeError message), logger Error message st1)))"

text \<open>
  Line 100, \<open>'homework_name' not in homework\<close>, is a key test on a dict, a substring
  test on a string, an element test on a list, and raises on any other value.
  The texts of the exceptions that the interpreter raises are CPython's.
\<close>

definition name_in :: "json \<Rightarrow> exn + bool" where
  "name_in homework =
     (case homework of
        JObj d \<Rightarrow> Inr (has_key d ''homework_name'')
      | JStr s \<Rightarrow> Inr (sublist ''homework_name'' s)
      | JList xs \<Rightarrow> Inr (JStr ''homework_name'' \<in> set xs)
      | _ \<Rightarrow> Inl (Exn TypeError
                 (''argument of type '' @ quoted (type_name homework) @ '' is not iterable'')))"

text \<open>
  Line 107, \<open>homework_status not in HOMEWORK_VERDICTS\<close>: the keys of the table are
  strings, and a list or a dict cannot be hashed.
\<close>

definition verdict_of :: "json \<Rightarrow> exn + string option" where
  "verdict_of homework_status =
     (case homework_status of
        JStr s \<Rightarrow> Inr (map_of HOMEWORK_VERDICTS s)
      | JList xs \<Rightarrow> Inl (Exn TypeError (''unhashable type: '' @ quoted ''list''))
      | JObj d \<Rightarrow> Inl (Exn TypeError (''unhashable type: '' @ quoted ''dict''))
      | _ \<Rightarrow> Inr None)"

text \<open>Lines 98 to 122. \<open>now\<close> is the text of the clock, line 116.\<close>

definition parse_status :: "runtime \<Rightarrow> string \<Rightarrow> json \<Rightarrow> state \<Rightarrow> (exn + string) \<times> state" where
  "parse_status rt now homework st =
     (case name_in homework of
        Inl e \<Rightarrow> (Inl e, st)
      | Inr False \<Rightarrow> (Inl (Exn KeyError msg_no_name), logger Error msg_no_name st)
      | Inr True \<Rightarrow>
          (case homework of
             JObj d \<Rightarrow>
               (let homework_name = dict_get d ''homework_name'' JNull;
                    reviewer_comment = dict_get d ''reviewer_comment'' (JStr no_comment);
                    homework_status = dict_get d ''status'' JNull
                in case verdict_of homework_status of
                     Inl e \<Rightarrow> (Inl e, st)
                   | Inr None \<Rightarrow>
                       (let message = msg_undocumented @ format_value rt homework_status
                        in (Inl (Exn KeyError message), logger Error message st))
                   | Inr (Some verdict) \<Rightarrow>
                       (Inr (now @ [CHR 0x0A] @
                             txt_work @ format_value rt homework_name @ txt_work_end @
                             txt_verdict @ verdict @ [CHR 0x0A] @
                             txt_comment @ format_value rt reviewer_comment @ [CHR 0x0A]),
                        st\<lparr>cache_errors := []\<rparr>))
           | _ \<Rightarrow>
               (Inl (Exn AttributeError
                      (quoted (type_name homework) @ '' object has no attribute '' @
                       quoted ''get'')),
                st)))"

text \<open>
  Truth of an environment variable: \<open>None\<close> and the empty string are false.
\<close>

definition is_set :: "string option \<Rightarrow> bool" where
  "is_set v = (case v of None \<Rightarrow> False | Some s \<Rightarrow> s \<noteq> [])"

text \<open>Lines 125 to 136.\<close>

definition check_tokens :: "config \<Rightarrow> state \<Rightarrow> bool \<times> state" where
  "check_tokens cfg st =
     (if \<not> is_set (PRACTICUM_TOKEN cfg)
      then (False, logger Critical (msg_no_env @ ''PRACTICUM_TOKEN'') st)
      else if \<not> is_set (TELEGRAM_TOKEN cfg)
      then (False, logger Critical (msg_no_env @ ''TELEGRAM_TOKEN'') st)
      else if \<not> is_set (TELEGRAM_CHAT_ID cfg)
      then (False, logger Critical (msg_no_env @ ''TELEGRAM_CHAT_ID'') st)
      else (True, st))"

text \<open>
  Lines 139 to 144. The argument \<open>b\<close> is the bot that line 142 makes; making it is taken
  not to raise.
\<close>

definition send_error_message :: "runtime \<Rightarrow> bot \<Rightarrow> string \<Rightarrow> state \<Rightarrow> (exn + unit) \<times> state" where
  "send_error_message rt b message st =
     (if message \<notin> set (cache_errors st)
      then (case send_message rt b message st of
              (Inl e, st1) \<Rightarrow> (Inl e, st1)
            | (Inr u, st1) \<Rightarrow> (Inr (), st1\<lparr>cache_errors := cache_errors st1 @ [message]\<rparr>))
      else (Inr (), st))"

text \<open>
  \<open>xs[i]\<close> on a list: an index below zero is taken from the end, and an index
  outside the list raises.
\<close>

definition getitem :: "'a list \<Rightarrow> int \<Rightarrow> exn + 'a" where
  "getitem xs i =
     (if 0 \<le> i \<and> i < int (length xs) then Inr (xs ! nat i)
      else if i < 0 \<and> - i \<le> int (length xs) then Inr (xs ! nat (int (length xs) + i))
      else Inl (Exn IndexError ''list index out of range''))"

text \<open>
  Lines 155 to 160, the body of the \<open>try\<close>: the value is the new
  \<open>current_timestamp\<close>, or the exception that left the body.
\<close>

definition try_body ::
  "runtime \<Rightarrow> config \<Rightarrow> env \<Rightarrow> int \<Rightarrow> state \<Rightarrow> (exn + int) \<times> state" where
  "try_body rt cfg ev current_timestamp st =
     (case get_api_answer rt cfg ev (Some current_timestamp) st of
        (Inl e, st1) \<Rightarrow> (Inl e, st1)
      | (Inr resp, st1) \<Rightarrow>
          (case check_response resp st1 of
             (Inl e, st2) \<Rightarrow> (Inl e, st2)
           | (Inr homework, st2) \<Rightarrow>
               (case getitem homework LAST_HOMEWORK_LIST_ID of
                  Inl e \<Rightarrow> (Inl e, st2)
                | Inr h \<Rightarrow>
                    (case parse_status rt (now_text ev) h st2 of
                       (Inl e, st3) \<Rightarrow> (Inl e, st3)
                     | (Inr message, st3) \<Rightarrow>
                         (case send_message rt (status_bot ev) message st3 of
                            (Inl e, st4) \<Rightarrow> (Inl e, st4)
                          | (Inr u, st4) \<Rightarrow> (Inr (clock_after ev), st4))))))"

text \<open>Line 169, the \<open>finally\<close> clause.\<close>

definition sleep :: "state \<Rightarrow> state" where
  "sleep st = st\<lparr>sleeps := sleeps st @ [TELEGRAM_RETRY_TIME]\<rparr>"

text \<open>
  Lines 154 to 169, one pass of the loop. The value is the exception that leaves the
  \<open>try\<close> statement, if any, the timestamp for the next pass and the state. An exception
  raised inside an \<open>except\<close> clause is not handled by the clauses beside it: the
  \<open>finally\<close> clause runs and the exception goes on.
\<close>

definition iteration ::
  "runtime \<Rightarrow> config \<Rightarrow> env \<Rightarrow> int \<Rightarrow> state \<Rightarrow> exn option \<times> int \<times> state" where
  "iteration rt cfg ev current_timestamp st =
     (case try_body rt cfg ev current_timestamp st of
        (Inr t, st1) \<Rightarrow> (None, t, sleep st1)
      | (Inl e, st1) \<Rightarrow>
          if catches rt IndexError e
          then (None, current_timestamp, sleep (logger Debug msg_no_new st1))
          else (let message = msg_failure @ str_exn rt e in
                case send_error_message rt (error_bot ev) message
                       (logger Exception message st1) of
                  (Inl e', st2) \<Rightarrow> (Some e', current_timestamp, sleep st2)
                | (Inr u, st2) \<Rightarrow> (None, current_timestamp, sleep st2)))"

text \<open>
  How a run ends: \<open>sys.exit()\<close>, an exception that nothing caught, or the loop still
  going, with its timestamp, after the passes that were given.
\<close>

datatype outcome = Exited | Crashed exn | Running int

text \<open>The loop of line 153, run for one pass per environment of the list.\<close>

fun poll_loop :: "runtime \<Rightarrow> config \<Rightarrow> env list \<Rightarrow> int \<Rightarrow> state \<Rightarrow> outcome \<times> state" where
  "poll_loop rt cfg [] current_timestamp st = (Running current_timestamp, st)"
| "poll_loop rt cfg (ev # evs) current_timestamp st =
     (case iteration rt cfg ev current_timestamp st of
        (Some e, t, st1) \<Rightarrow> (Crashed e, st1)
      | (None, t, st1) \<Rightarrow> poll_loop rt cfg evs t st1)"

text \<open>Lines 147 to 169. \<open>start\<close> is the clock read at line 152.\<close>

definition main :: "runtime \<Rightarrow> config \<Rightarrow> int \<Rightarrow> env list \<Rightarrow> state \<Rightarrow> outcome \<times> state" where
  "main rt cfg start evs st =
     (case check_tokens cfg st of
        (False, st1) \<Rightarrow> (Exited, logger Critical msg_stopped st1)
      | (True, st1) \<Rightarrow> poll_loop rt cfg evs (start - TELEGRAM_RETRY_TIME) st1)"

subsection \<open>Notions used in the properties\<close>

text \<open>Python can hash every decoded value but a list and a dict.\<close>

definition hashable :: "json \<Rightarrow> bool" where
  "hashable v = (case v of JList xs \<Rightarrow> False | JObj d \<Rightarrow> False | _ \<Rightarrow> True)"

text \<open>A status that is one of the three keys of \<open>HOMEWORK_VERDICTS\<close>.\<close>

definition known_status :: "json \<Rightarrow> bool" where
  "known_status v =
     (case v of JStr s \<Rightarrow> s \<in> {''approved'', ''reviewing'', ''rejected''} | _ \<Rightarrow> False)"

text \<open>
  A caller that calls \<open>send_error_message\<close> once for each pair of a bot and a text,
  and goes on after a call that raised.
\<close>

fun send_error_messages :: "runtime \<Rightarrow> (bot \<times> string) list \<Rightarrow> state \<Rightarrow> state" where
  "send_error_messages rt [] st = st"
| "send_error_messages rt ((b, m) # calls) st =
     send_error_messages rt calls (snd (send_error_message rt b m st))"

subsection \<open>Values for the examples\<close>

text \<open>
  The state of a fresh process: line 42 binds \<open>cache_errors\<close> to the empty
  list.
\<close>

definition init_state :: state where
  "init_state =
     \<lparr>cache_errors = [], log = [], requests = [], attempts = [], delivered = [], sleeps = []\<rparr>"

text \<open>Decimal digits of a natural number, for \<open>str()\<close> of an integer.\<close>

function digits :: "nat \<Rightarrow> string" where
  "digits n =
     (if n < 10 then [char_of (48 + n)]
      else digits (n div 10) @ [char_of (48 + n mod 10)])"
  by pat_completeness auto
termination
  by (relation "measure id") auto

declare digits.simps [simp del]

text \<open>
  A runtime for the examples. No class of the model derives from another one: the classes
  of the module \<open>exceptions\<close> are plain exception classes of the repository, and no
  class of a library derives from them. \<open>str()\<close> is CPython's on \<open>None\<close>, the booleans
  and the integers, the only values it meets in the examples; \<open>str()\<close> of an exception
  is its text, in quotes for a \<open>KeyError\<close>.
\<close>

definition example_runtime :: runtime where
  "example_runtime =
     \<lparr>derives = (\<lambda>c d. False),
      py_str = (\<lambda>v. case v of
                  JNull \<Rightarrow> ''None''
                | JBool b \<Rightarrow> (if b then ''True'' else ''False'')
                | JInt i \<Rightarrow> (if i < 0 then ''-'' @ digits (nat (- i)) else digits (nat i))
                | _ \<Rightarrow> []),
      str_exn = (\<lambda>e. case e of Exn c m \<Rightarrow> if c = KeyError then quoted m else m)\<rparr>"

definition example_config :: config where
  "example_config =
     \<lparr>TELEGRAM_TOKEN = Some ''1:token'', TELEGRAM_CHAT_ID = Some ''42'',
      PRACTICUM_TOKEN = Some ''secret'', ENDPOINT = ''https://example.org/api''\<rparr>"

text \<open>A bot that delivers every text, and one that cannot reach its server.\<close>

definition bot_up :: bot where
  "bot_up = (\<lambda>m. None)"

definition bot_down :: bot where
  "bot_down = (\<lambda>m. Some (Exn (Library ''telegram.error.NetworkError'') ''network''))"

text \<open>
  Environments of one pass: the endpoint answers 200 with the document \<open>doc\<close>, or the
  request fails with a connection error of the requests package.
\<close>

definition env_answer :: "json \<Rightarrow> bot \<Rightarrow> bot \<Rightarrow> env" where
  "env_answer doc sb eb =
     \<lparr>requests_get = (\<lambda>q. Inr \<lparr>status_code = 200, json_body = Inr doc\<rparr>),
      clock = 5000, now_text = ''01-02-2023 10:30'',
      status_bot = sb, error_bot = eb, clock_after = 5001\<rparr>"

definition env_unreachable :: "bot \<Rightarrow> bot \<Rightarrow> env" where
  "env_unreachable sb eb =
     \<lparr>requests_get =
        (\<lambda>q. Inl (Exn (Library ''requests.exceptions.ConnectionError'') ''refused'')),
      clock = 5000, now_text = ''01-02-2023 10:30'',
      status_bot = sb, error_bot = eb, clock_after = 5001\<rparr>"

text \<open>
  An endpoint that answers every request with an empty list of homeworks and, as
  \<open>current_date\<close>, the \<open>from_date\<close> it was asked; the clock reads \<open>c\<close>.
\<close>

definition doc_echo :: "int \<Rightarrow> json" where
  "doc_echo n = JObj [(''homeworks'', JList []), (''current_date'', JInt n)]"

definition env_echo :: "int \<Rightarrow> env" where
  "env_echo c =
     \<lparr>requests_get = (\<lambda>q. Inr \<lparr>status_code = 200, json_body = Inr (doc_echo (from_date q))\<rparr>),
      clock = c, now_text = ''01-02-2023 10:30'',
      status_bot = bot_up, error_bot = bot_up, clock_after = c + 1\<rparr>"

text \<open>Two documents of the API: one homework that was approved, and no homework.\<close>

definition homework_approved :: json where
  "homework_approved = JObj [(''homework_name'', JStr ''X''), (''status'', JStr ''approved'')]"

definition doc_approved :: json where
  "doc_approved =
     JObj [(''homeworks'', JList [homework_approved]), (''current_date'', JInt 1000)]"

definition doc_empty :: json where
  "doc_empty = JObj [(''homeworks'', JList []), (''current_date'', JInt 1000)]"

section \<open>Properties\<close>

subsection \<open>Simplification of the state\<close>

lemma logger_fields [simp]:
  "cache_errors (logger lvl m st) = cache_errors st"
  "requests (logger lvl m st) = requests st"
  "attempts (logger lvl m st) = attempts st"
  "delivered (logger lvl m st) = delivered st"
  "sleeps (logger lvl m st) = sleeps st"
  "log (logger lvl m st) = log st @ [(lvl, m)]"
  by (simp_all add: logger_def)

lemma sleep_fields [simp]:
  "cache_errors (sleep st) = cache_errors st"
  "requests (sleep st) = requests st"
  "attempts (sleep st) = attempts st"
  "delivered (sleep st) = delivered st"
  "log (sleep st) = log st"
  "sleeps (sleep st) = sleeps st @ [600]"
  by (simp_all add: sleep_def TELEGRAM_RETRY_TIME_def)

subsection \<open>Response validation\<close>

lemma check_response_obj:
  "fst (check_response (JObj d) st) =
     (if has_key d ''homeworks'' \<and> has_key d ''current_date''
      then (case map_of d ''homeworks'' of
              Some (JList hs) \<Rightarrow> Inr hs
            | _ \<Rightarrow> Inl (Exn KeyError msg_missing_keys))
      else Inl (Exn KeyError msg_missing_keys))"
  by (simp add: check_response_def dict_get_def Let_def split: option.splits json.splits)

text \<open>
  C2, as the spec states it, fails: a mapping that holds \<open>homeworks\<close> as a list and
  lacks only \<open>current_date\<close> is not returned, it raises the missing-key error.
\<close>

theorem check_response_lacking_current_date:
  "has_key [(''homeworks'', JList [JInt 1])] ''homeworks'' \<and>
   fst (check_response (JObj [(''homeworks'', JList [JInt 1])]) init_state)
     = Inl (Exn KeyError msg_missing_keys)"
  by (simp add: check_response_obj has_key_def)

text \<open>
  C2, amended: on a mapping, \<open>check_response\<close> raises the missing-key error exactly when
  at least one of the keys \<open>homeworks\<close> and \<open>current_date\<close> is missing or the value of
  \<open>homeworks\<close> is not a list; on every other mapping it returns the list of
  \<open>homeworks\<close> as it is. It raises nothing else on a mapping.
\<close>

theorem check_response_missing_key_iff:
  "((\<exists>m. fst (check_response (JObj d) st) = Inl (Exn KeyError m)) \<longleftrightarrow>
      (\<not> has_key d ''homeworks'' \<or> \<not> has_key d ''current_date'' \<or>
       (\<forall>hs. map_of d ''homeworks'' \<noteq> Some (JList hs)))) \<and>
   (has_key d ''homeworks'' \<and> has_key d ''current_date'' \<and>
      map_of d ''homeworks'' = Some (JList hs)
      \<longrightarrow> fst (check_response (JObj d) st) = Inr hs) \<and>
   (\<forall>e. fst (check_response (JObj d) st) = Inl e \<longrightarrow> e = Exn KeyError msg_missing_keys)"
  by (auto simp: check_response_obj split: option.splits json.splits)

text \<open>
  A complete answer is returned as it is, and an answer without \<open>homeworks\<close>
  raises.
\<close>

theorem check_response_missing_key_iff_witness:
  "fst (check_response
         (JObj [(''homeworks'', JList [JStr ''a'', JStr ''b'']), (''current_date'', JInt 1000)])
         init_state)
     = Inr [JStr ''a'', JStr ''b''] \<and>
   (\<exists>m. fst (check_response (JObj [(''current_date'', JInt 1000)]) init_state)
            = Inl (Exn KeyError m))"
  using check_response_missing_key_iff
          [of "[(''homeworks'', JList [JStr ''a'', JStr ''b'']), (''current_date'', JInt 1000)]"
              init_state "[JStr ''a'', JStr ''b'']"]
        check_response_missing_key_iff [of "[(''current_date'', JInt 1000)]" init_state]
  by (simp add: has_key_def)

lemmas model_defs =
  main_def check_tokens_def is_set_def iteration_def try_body_def get_api_answer_def
  api_request_def api_except_def check_response_def parse_status_def name_in_def
  verdict_of_def send_message_def send_error_message_def getitem_def has_key_def
  dict_get_def format_value_def catches_def logger_def sleep_def Let_def
  HOMEWORK_VERDICTS_def TELEGRAM_RETRY_TIME_def LAST_HOMEWORK_LIST_ID_def
  HEADERS_def timestamp_or_now_def

lemmas example_defs =
  init_state_def example_runtime_def example_config_def bot_up_def bot_down_def
  env_answer_def env_unreachable_def homework_approved_def doc_approved_def doc_empty_def
  doc_echo_def env_echo_def

subsection \<open>Sending\<close>

lemma send_message_ok:
  "b m = None \<Longrightarrow>
     send_message rt b m st =
       (Inr (), logger Info msg_sent (st\<lparr>attempts := attempts st @ [m], delivered := delivered st @ [m]\<rparr>))"
  by (simp add: send_message_def Let_def)

lemma send_error_message_fields:
  "attempts (snd (send_error_message rt b m st)) =
     (if m \<in> set (cache_errors st) then attempts st else attempts st @ [m])"
  "cache_errors (snd (send_error_message rt b m st)) =
     (if m \<notin> set (cache_errors st) \<and> b m = None then cache_errors st @ [m]
      else cache_errors st)"
  "delivered (snd (send_error_message rt b m st)) =
     (if m \<notin> set (cache_errors st) \<and> b m = None then delivered st @ [m]
      else delivered st)"
  by (auto simp: send_error_message_def send_message_def Let_def split: option.splits)

lemma send_error_message_step:
  "snd (send_error_message rt b m st) = st' \<Longrightarrow>
   (m \<notin> set (cache_errors st) \<and> b m = None \<and>
      cache_errors st' = cache_errors st @ [m] \<and> delivered st' = delivered st @ [m]) \<or>
   (cache_errors st' = cache_errors st \<and> delivered st' = delivered st)"
  by (auto simp: send_error_message_def send_message_def Let_def split: option.splits if_splits)

lemma send_error_messages_new:
  "\<exists>new. delivered (send_error_messages rt calls st) = delivered st @ new \<and>
         cache_errors (send_error_messages rt calls st) = cache_errors st @ new \<and>
         distinct new \<and> set new \<inter> set (cache_errors st) = {}"
proof (induction calls arbitrary: st)
  case Nil
  show ?case by simp
next
  case (Cons c calls)
  obtain b m where c: "c = (b, m)" by (cases c)
  define st1 where "st1 = snd (send_error_message rt b m st)"
  from Cons.IH [of st1] obtain new where
    new: "delivered (send_error_messages rt calls st1) = delivered st1 @ new"
         "cache_errors (send_error_messages rt calls st1) = cache_errors st1 @ new"
         "distinct new" "set new \<inter> set (cache_errors st1) = {}"
    by blast
  from send_error_message_step [OF st1_def [symmetric]]
  show ?case
  proof
    assume a: "m \<notin> set (cache_errors st) \<and> b m = None \<and>
      cache_errors st1 = cache_errors st @ [m] \<and> delivered st1 = delivered st @ [m]"
    with new have "delivered (send_error_messages rt (c # calls) st) = delivered st @ (m # new)"
      "cache_errors (send_error_messages rt (c # calls) st) = cache_errors st @ (m # new)"
      "distinct (m # new)" "set (m # new) \<inter> set (cache_errors st) = {}"
      by (auto simp: c st1_def)
    then show ?thesis by blast
  next
    assume "cache_errors st1 = cache_errors st \<and> delivered st1 = delivered st"
    with new show ?thesis by (auto simp: c st1_def)
  qed
qed

subsection \<open>The requests that are made\<close>

lemma api_except_requests:
  "requests (snd (api_except rt e st)) = requests st"
  by (simp add: api_except_def)

lemma get_api_answer_requests:
  "requests (snd (get_api_answer rt cfg ev ts st)) = requests st @ [api_request cfg ev ts]"
  by (simp add: get_api_answer_def Let_def api_except_requests split: sum.splits)

lemma check_response_requests:
  "requests (snd (check_response resp st)) = requests st"
  by (simp add: check_response_def Let_def split: json.splits)

lemma parse_status_requests:
  "requests (snd (parse_status rt now h st)) = requests st"
  by (simp add: parse_status_def Let_def split: sum.splits bool.splits json.splits option.splits)

lemma send_message_requests:
  "requests (snd (send_message rt b m st)) = requests st"
  by (simp add: send_message_def Let_def split: option.splits)

lemma send_error_message_requests:
  "requests (snd (send_error_message rt b m st)) = requests st"
  using send_message_requests [of rt b m st]
  by (cases "send_message rt b m st") (auto simp: send_error_message_def split: sum.splits)

subsection \<open>The request\<close>

text \<open>
  C3 fails on the code. When \<open>requests.get\<close> raises an exception that is not an instance
  of \<open>ApiResponseException\<close>, the clause of line 68 does not catch it:
  \<open>get_api_answer\<close> lets that very exception out, and logs nothing; the request it made
  is all that it leaves in the state.
\<close>

theorem get_api_answer_transport_raw:
  "requests_get ev (api_request cfg ev ts) = Inl e \<Longrightarrow>
   \<not> catches rt ApiResponseException e \<Longrightarrow>
   get_api_answer rt cfg ev ts st =
     (Inl e, st\<lparr>requests := requests st @ [api_request cfg ev ts]\<rparr>)"
  by (simp add: get_api_answer_def api_except_def Let_def)

text \<open>
  The failing input of C3: the connection error of the requests package leaves
  \<open>get_api_answer\<close> as it is.
\<close>

theorem get_api_answer_transport_raw_witness:
  "get_api_answer example_runtime example_config (env_unreachable bot_up bot_up) (Some 1000) init_state
     = (Inl (Exn (Library ''requests.exceptions.ConnectionError'') ''refused''),
        init_state\<lparr>requests :=
          [\<lparr>url = ''https://example.org/api'', authorization = ''OAuth secret'',
            from_date = 1000\<rparr>]\<rparr>)"
  using get_api_answer_transport_raw
          [of "env_unreachable bot_up bot_up" example_config "Some 1000"
              "Exn (Library ''requests.exceptions.ConnectionError'') ''refused''"
              example_runtime init_state]
  by (simp add: env_unreachable_def catches_def example_runtime_def example_config_def
        init_state_def api_request_def timestamp_or_now_def HEADERS_def)

text \<open>
  Only an instance of \<open>ApiResponseException\<close> is turned into the error of line
  71.
\<close>

lemma get_api_answer_transport_caught:
  "requests_get ev (api_request cfg ev ts) = Inl e \<Longrightarrow>
   catches rt ApiResponseException e \<Longrightarrow>
   get_api_answer rt cfg ev ts st =
     (Inl (Exn ApiResponseException msg_unreachable),
      logger Exception msg_unreachable
        (st\<lparr>requests := requests st @ [api_request cfg ev ts]\<rparr>))"
  by (simp add: get_api_answer_def api_except_def Let_def)

text \<open>
  C9: the timestamp \<open>0\<close> is treated as a missing one. Called with \<open>0\<close>,
  \<open>get_api_answer\<close> does what it does with \<open>None\<close>: the one request it hands to
  \<open>requests.get\<close> carries the current time, and what it returns is what the endpoint
  answers to that request, whatever the endpoint would answer to a request from the epoch.
  Whatever the argument, the request carries \<open>from_date = 0\<close> only when the clock
  itself reads \<open>0\<close>.
\<close>

theorem get_api_answer_zero_is_none:
  "get_api_answer rt cfg ev (Some 0) st = get_api_answer rt cfg ev None st \<and>
   requests (snd (get_api_answer rt cfg ev (Some 0) st)) =
     requests st @
       [\<lparr>url = ENDPOINT cfg, authorization = HEADERS cfg, from_date = clock ev\<rparr>] \<and>
   (requests_get ev \<lparr>url = ENDPOINT cfg, authorization = HEADERS cfg, from_date = clock ev\<rparr>
      = Inr \<lparr>status_code = 200, json_body = Inr v\<rparr>
    \<longrightarrow> fst (get_api_answer rt cfg ev (Some 0) st) = Inr v) \<and>
   (\<exists>q. requests (snd (get_api_answer rt cfg ev ts st)) = requests st @ [q] \<and>
        (from_date q = 0 \<longrightarrow> clock ev = 0))"
proof -
  have same: "get_api_answer rt cfg ev (Some 0) st = get_api_answer rt cfg ev None st"
    by (simp add: get_api_answer_def api_request_def timestamp_or_now_def)
  have asked: "requests (snd (get_api_answer rt cfg ev ts st)) =
                 requests st @ [api_request cfg ev ts]" for ts
    by (rule get_api_answer_requests)
  have zero: "api_request cfg ev (Some 0) =
                \<lparr>url = ENDPOINT cfg, authorization = HEADERS cfg, from_date = clock ev\<rparr>"
    by (simp add: api_request_def timestamp_or_now_def)
  have answer: "requests_get ev \<lparr>url = ENDPOINT cfg, authorization = HEADERS cfg,
                                 from_date = clock ev\<rparr>
                  = Inr \<lparr>status_code = 200, json_body = Inr v\<rparr>
                \<longrightarrow> fst (get_api_answer rt cfg ev (Some 0) st) = Inr v"
    by (simp add: get_api_answer_def zero Let_def)
  have epoch: "from_date (api_request cfg ev ts) = 0 \<longrightarrow> clock ev = 0"
    by (auto simp: api_request_def timestamp_or_now_def split: option.splits)
  from asked [of ts] epoch
  have "\<exists>q. requests (snd (get_api_answer rt cfg ev ts st)) = requests st @ [q] \<and>
            (from_date q = 0 \<longrightarrow> clock ev = 0)"
    by blast
  with same asked [of "Some 0"] zero answer show ?thesis
    by simp
qed

text \<open>
  With the clock at 5000 and an endpoint that echoes the \<open>from_date\<close> it is asked, the
  timestamp 0 asks for 5000 and gets the answer for 5000; the timestamp 7 gets the answer
  for 7.
\<close>

theorem get_api_answer_zero_is_none_witness:
  "get_api_answer example_runtime example_config (env_echo 5000) (Some 0) init_state
     = (Inr (doc_echo 5000),
        init_state\<lparr>requests :=
          [\<lparr>url = ''https://example.org/api'', authorization = ''OAuth secret'',
            from_date = 5000\<rparr>]\<rparr>) \<and>
   fst (get_api_answer example_runtime example_config (env_echo 5000) (Some 7) init_state)
     = Inr (doc_echo 7)"
  using get_api_answer_zero_is_none
          [of example_runtime example_config "env_echo 5000" init_state "doc_echo 5000" "Some 7"]
  by (simp add: get_api_answer_def api_request_def timestamp_or_now_def env_echo_def
        example_config_def init_state_def HEADERS_def Let_def)

subsection \<open>Error notifications\<close>

text \<open>
  C10: \<open>send_error_message\<close> appends the text to \<open>cache_errors\<close> only when the
  send has returned. The cache grows by the text exactly when the text was not cached and
  the bot delivered it; when the send raises, the call raises, the cache is as before, and
  a later call with the same text hands it to the bot again.
\<close>

theorem send_error_message_caches_after_send:
  "cache_errors (snd (send_error_message rt b m st)) =
     (if m \<notin> set (cache_errors st) \<and> b m = None then cache_errors st @ [m]
      else cache_errors st) \<and>
   (b m = Some e \<longrightarrow> cache_errors (snd (send_error_message rt b m st)) = cache_errors st) \<and>
   (b m = Some e \<and> m \<notin> set (cache_errors st) \<longrightarrow>
      (\<exists>e'. fst (send_error_message rt b m st) = Inl e') \<and>
      attempts (snd (send_error_message rt b' m (snd (send_error_message rt b m st))))
        = attempts st @ [m, m])"
  by (auto simp: send_error_message_def send_message_def Let_def split: option.splits)

text \<open>
  A send that raises caches nothing and the text is sent again; a send that returns caches
  the text.
\<close>

theorem send_error_message_caches_after_send_witness:
  "cache_errors (snd (send_error_message example_runtime bot_down ''e1'' init_state)) = [] \<and>
   attempts (snd (send_error_message example_runtime bot_up ''e1''
                    (snd (send_error_message example_runtime bot_down ''e1'' init_state))))
     = [''e1'', ''e1''] \<and>
   cache_errors (snd (send_error_message example_runtime bot_up ''e1'' init_state)) = [''e1'']"
  using send_error_message_caches_after_send
          [of example_runtime bot_down "''e1''" init_state
              "Exn (Library ''telegram.error.NetworkError'') ''network''" bot_up]
        send_error_message_caches_after_send [of example_runtime bot_up "''e1''" init_state]
  by (simp add: init_state_def bot_down_def bot_up_def)

text \<open>
  C7, as the spec states it, fails when the send raises: from an empty cache, two calls of
  \<open>send_error_message\<close> with the same text hand the text to the bot twice, and
  nothing is delivered.
\<close>

theorem send_error_message_twice_after_failed_send:
  "attempts (send_error_messages example_runtime [(bot_down, ''e1''), (bot_down, ''e1'')] init_state)
     = [''e1'', ''e1''] \<and>
   delivered (send_error_messages example_runtime [(bot_down, ''e1''), (bot_down, ''e1'')] init_state)
     = []"
  by (simp add: send_error_message_fields init_state_def bot_down_def)

text \<open>
  C7, amended: from an empty cache, two calls of \<open>send_error_message\<close> with the same
  text hand one text to the bot when the first send returned, and the text twice when it
  raised; two calls with different texts hand both texts to the bot, and both are delivered
  when both sends return. Over any number of calls no text is delivered twice.
\<close>

theorem send_error_message_dedup:
  assumes "cache_errors st = []"
  shows "attempts (send_error_messages rt [(b1, m), (b2, m)] st) =
           attempts st @ (if b1 m = None then [m] else [m, m]) \<and>
         (b1 m = None \<longrightarrow>
            delivered (send_error_messages rt [(b1, m), (b2, m)] st) = delivered st @ [m]) \<and>
         (m1 \<noteq> m2 \<longrightarrow>
            attempts (send_error_messages rt [(b1, m1), (b2, m2)] st) = attempts st @ [m1, m2]) \<and>
         (m1 \<noteq> m2 \<and> b1 m1 = None \<and> b2 m2 = None \<longrightarrow>
            delivered (send_error_messages rt [(b1, m1), (b2, m2)] st) = delivered st @ [m1, m2]) \<and>
         (\<exists>new. delivered (send_error_messages rt calls st) = delivered st @ new \<and> distinct new)"
proof -
  have two: "attempts (send_error_messages rt [(b1, m), (b2, m)] st) =
               attempts st @ (if b1 m = None then [m] else [m, m])"
    using assms by (simp add: send_error_message_fields)
  have one: "b1 m = None \<longrightarrow>
            delivered (send_error_messages rt [(b1, m), (b2, m)] st) = delivered st @ [m]"
    using assms by (simp add: send_error_message_fields)
  have att: "m1 \<noteq> m2 \<longrightarrow>
            attempts (send_error_messages rt [(b1, m1), (b2, m2)] st) = attempts st @ [m1, m2]"
    using assms by (simp add: send_error_message_fields)
  have dlv: "m1 \<noteq> m2 \<and> b1 m1 = None \<and> b2 m2 = None \<longrightarrow>
            delivered (send_error_messages rt [(b1, m1), (b2, m2)] st) = delivered st @ [m1, m2]"
    using assms by (simp add: send_error_message_fields)
  from send_error_messages_new [of rt calls st]
  have "\<exists>new. delivered (send_error_messages rt calls st) = delivered st @ new \<and> distinct new"
    by blast
  with two one att dlv show ?thesis by (intro conjI)
qed

text \<open>
  One text twice is handed to a bot that delivers once, two texts are handed to it both.
\<close>

theorem send_error_message_dedup_witness:
  "attempts (send_error_messages example_runtime [(bot_up, ''e1''), (bot_up, ''e1'')] init_state)
     = [''e1''] \<and>
   attempts (send_error_messages example_runtime [(bot_up, ''e1''), (bot_up, ''e2'')] init_state)
     = [''e1'', ''e2'']"
proof -
  have h: "cache_errors init_state = []"
    by (simp add: init_state_def)
  from send_error_message_dedup
         [OF h, of example_runtime bot_up "''e1''" bot_up "''e1''" "''e2''" "[]"]
  show ?thesis
    by (simp add: init_state_def bot_up_def)
qed

subsection \<open>Formatting\<close>

lemma verdicts_dom:
  "map_of HOMEWORK_VERDICTS s \<noteq> None \<longleftrightarrow> s \<in> {''approved'', ''reviewing'', ''rejected''}"
  by (simp add: HOMEWORK_VERDICTS_def)

lemma verdict_of_str: "verdict_of (JStr s) = Inr (map_of HOMEWORK_VERDICTS s)"
  by (simp add: verdict_of_def)

lemma verdict_of_unknown:
  assumes "\<not> known_status v" and "hashable v"
  shows "verdict_of v = Inr None"
proof (cases v)
  case (JStr s)
  with assms(1) have "s \<notin> {''approved'', ''reviewing'', ''rejected''}"
    by (simp add: known_status_def)
  then have "map_of HOMEWORK_VERDICTS s = None"
    using verdicts_dom [of s] by blast
  then show ?thesis by (simp add: JStr verdict_of_str)
qed (use assms in \<open>simp_all add: verdict_of_def hashable_def\<close>)

lemma verdict_of_unhashable:
  "\<not> hashable v \<Longrightarrow> \<exists>m. verdict_of v = Inl (Exn TypeError m)"
  by (cases v) (simp_all add: verdict_of_def hashable_def)





text \<open>
  C6, as the spec states it, fails: a status that is a list is not one of the three keys,
  and \<open>parse_status\<close> raises a \<open>TypeError\<close> for it, not the missing-key error, since
  line 107 cannot hash it.
\<close>

theorem parse_status_unhashable_status:
  "parse_status example_runtime ''01-02-2023 10:30''
     (JObj [(''homework_name'', JStr ''X''), (''status'', JList [])]) init_state
     = (Inl (Exn TypeError (''unhashable type: '' @ quoted ''list'')), init_state)"
  by (simp add: parse_status_def name_in_def has_key_def dict_get_def verdict_of_def Let_def)

text \<open>
  C6, amended: for every record whose status is not one of the three keys,
  \<open>parse_status\<close> raises and leaves the cache of errors as it was: no such status is
  accepted. When the status is absent, \<open>null\<close>, or any other value that can be hashed,
  the exception is the missing-key error; for a record with a name it carries the text of
  the undocumented status, the same for an absent status as for \<open>null\<close>.
\<close>

theorem parse_status_unknown_status:
  assumes "\<not> known_status (dict_get d ''status'' JNull)"
  shows "(\<exists>e. fst (parse_status rt now (JObj d) st) = Inl e) \<and>
         cache_errors (snd (parse_status rt now (JObj d) st)) = cache_errors st \<and>
         (hashable (dict_get d ''status'' JNull) \<longrightarrow>
            (\<exists>m. fst (parse_status rt now (JObj d) st) = Inl (Exn KeyError m)) \<and>
            (has_key d ''homework_name'' \<longrightarrow>
               fst (parse_status rt now (JObj d) st) =
                 Inl (Exn KeyError
                       (msg_undocumented @ format_value rt (dict_get d ''status'' JNull)))))"
proof (cases "hashable (dict_get d ''status'' JNull)")
  case True
  from verdict_of_unknown [OF assms True]
  show ?thesis
    by (cases "has_key d ''homework_name''")
       (simp_all add: parse_status_def name_in_def Let_def True)
next
  case False
  from verdict_of_unhashable [OF False] obtain m
    where "verdict_of (dict_get d ''status'' JNull) = Inl (Exn TypeError m)" by blast
  then show ?thesis
    by (cases "has_key d ''homework_name''")
       (simp_all add: parse_status_def name_in_def Let_def False)
qed

text \<open>
  An unknown status and an absent status raise the missing-key error of the undocumented
  status.
\<close>

theorem parse_status_unknown_status_witness:
  "fst (parse_status example_runtime ''01-02-2023 10:30''
         (JObj [(''homework_name'', JStr ''X''), (''status'', JStr ''lost'')]) init_state)
     = Inl (Exn KeyError (msg_undocumented @ ''lost'')) \<and>
   fst (parse_status example_runtime ''01-02-2023 10:30''
         (JObj [(''homework_name'', JStr ''X'')]) init_state)
     = Inl (Exn KeyError (msg_undocumented @ ''None''))"
  using parse_status_unknown_status
          [of "[(''homework_name'', JStr ''X''), (''status'', JStr ''lost'')]"
              example_runtime "''01-02-2023 10:30''" init_state]
        parse_status_unknown_status
          [of "[(''homework_name'', JStr ''X'')]"
              example_runtime "''01-02-2023 10:30''" init_state]
  by (simp add: known_status_def hashable_def dict_get_def has_key_def format_value_def
        example_runtime_def)

subsection \<open>The loop\<close>

lemma api_except_frame:
  "api_except rt e st = (r, st') \<Longrightarrow>
     cache_errors st' = cache_errors st \<and> attempts st' = attempts st \<and>
     delivered st' = delivered st \<and> sleeps st' = sleeps st"
  by (auto simp: api_except_def split: if_splits)

lemma get_api_answer_frame:
  "get_api_answer rt cfg ev ts st = (r, st') \<Longrightarrow>
     cache_errors st' = cache_errors st \<and> attempts st' = attempts st \<and>
     delivered st' = delivered st \<and> sleeps st' = sleeps st"
  by (auto simp: get_api_answer_def Let_def split: sum.splits if_splits dest!: api_except_frame)

lemma check_response_frame:
  "check_response resp st = (r, st') \<Longrightarrow>
     cache_errors st' = cache_errors st \<and> attempts st' = attempts st \<and>
     delivered st' = delivered st \<and> sleeps st' = sleeps st"
  by (auto simp: check_response_def Let_def split: json.splits if_splits)

lemma catches_same_class [simp]: "catches rt c (Exn c m)"
  by (simp add: catches_def)

lemma try_body_requests:
  "requests (snd (try_body rt cfg ev t st)) = requests st @ [api_request cfg ev (Some t)]"
proof (cases "get_api_answer rt cfg ev (Some t) st")
  case g: (Pair r1 st1)
  have q1: "requests st1 = requests st @ [api_request cfg ev (Some t)]"
    using get_api_answer_requests [of rt cfg ev "Some t" st] g by simp
  show ?thesis
  proof (cases r1)
    case (Inl e)
    with g q1 show ?thesis by (simp add: try_body_def)
  next
    case r1: (Inr resp)
    show ?thesis
    proof (cases "check_response resp st1")
      case c: (Pair r2 st2)
      have q2: "requests st2 = requests st1"
        using check_response_requests [of resp st1] c by simp
      show ?thesis
      proof (cases r2)
        case (Inl e)
        with g r1 c q1 q2 show ?thesis by (simp add: try_body_def)
      next
        case r2: (Inr homework)
        show ?thesis
        proof (cases "getitem homework LAST_HOMEWORK_LIST_ID")
          case (Inl e)
          with g r1 c r2 q1 q2 show ?thesis by (simp add: try_body_def)
        next
          case h: (Inr h)
          show ?thesis
          proof (cases "parse_status rt (now_text ev) h st2")
            case p: (Pair r3 st3)
            have q3: "requests st3 = requests st2"
              using parse_status_requests [of rt "now_text ev" h st2] p by simp
            show ?thesis
            proof (cases r3)
              case (Inl e)
              with g r1 c r2 h p q1 q2 q3 show ?thesis by (simp add: try_body_def)
            next
              case r3: (Inr message)
              obtain r4 st4 where m: "send_message rt (status_bot ev) message st3 = (r4, st4)"
                by (cases "send_message rt (status_bot ev) message st3")
              have q4: "requests st4 = requests st3"
                using send_message_requests [of rt "status_bot ev" message st3] m by simp
              from g r1 c r2 h p r3 m q1 q2 q3 q4 show ?thesis
                by (cases r4) (simp_all add: try_body_def)
            qed
          qed
        qed
      qed
    qed
  qed
qed

lemma iteration_requests:
  "requests (snd (snd (iteration rt cfg ev t st))) = requests st @ [api_request cfg ev (Some t)]"
proof (cases "try_body rt cfg ev t st")
  case tb: (Pair r st1)
  have q1: "requests st1 = requests st @ [api_request cfg ev (Some t)]"
    using try_body_requests [of rt cfg ev t st] tb by simp
  show ?thesis
  proof (cases r)
    case (Inr c)
    with tb q1 show ?thesis by (simp add: iteration_def)
  next
    case l: (Inl e)
    show ?thesis
    proof (cases "catches rt IndexError e")
      case True
      with tb l q1 show ?thesis by (simp add: iteration_def)
    next
      case False
      define st2 where "st2 = logger Exception (msg_failure @ str_exn rt e) st1"
      obtain r5 st5 where
        n: "send_error_message rt (error_bot ev) (msg_failure @ str_exn rt e) st2 = (r5, st5)"
        by (cases "send_error_message rt (error_bot ev) (msg_failure @ str_exn rt e) st2")
      have "requests st5 = requests st2"
        using send_error_message_requests
                [of rt "error_bot ev" "msg_failure @ str_exn rt e" st2] n by simp
      then have q5: "requests st5 = requests st @ [api_request cfg ev (Some t)]"
        using q1 by (simp add: st2_def)
      from tb l False n q5 show ?thesis
        by (cases r5) (simp_all add: iteration_def Let_def st2_def)
    qed
  qed
qed

lemma poll_loop_next:
  "iteration rt cfg ev t st = (None, t', st') \<Longrightarrow>
   poll_loop rt cfg (ev # ev2 # evs) t st =
     (case iteration rt cfg ev2 t' st' of
        (Some e, c, s) \<Rightarrow> (Crashed e, s)
      | (None, c, s) \<Rightarrow> poll_loop rt cfg evs c s)"
  by simp

text \<open>
  C8: in a pass where the answer is valid and the list of homeworks is empty, the
  \<open>IndexError\<close> of line 158 is caught by the clause of line 161: the pass ends without
  an exception and with the timestamp it had, it logs the text of line 162 at debug level
  and nothing after it, hands nothing to a bot, leaves the cache of errors alone and sleeps
  \<open>TELEGRAM_RETRY_TIME\<close> seconds. The loop goes on: after that pass alone it is still
  running, with the same timestamp, and when another pass follows, that pass runs from the
  state the empty pass left, with that timestamp, and the loop goes where it leads.
\<close>

theorem empty_homeworks_pass:
  assumes "get_api_answer rt cfg ev (Some t) st = (Inr resp, st1)"
    and "check_response resp st1 = (Inr [], st2)"
  shows "iteration rt cfg ev t st = (None, t, sleep (logger Debug msg_no_new st2)) \<and>
         log (sleep (logger Debug msg_no_new st2)) = log st2 @ [(Debug, msg_no_new)] \<and>
         attempts (sleep (logger Debug msg_no_new st2)) = attempts st \<and>
         delivered (sleep (logger Debug msg_no_new st2)) = delivered st \<and>
         cache_errors (sleep (logger Debug msg_no_new st2)) = cache_errors st \<and>
         sleeps (sleep (logger Debug msg_no_new st2)) = sleeps st @ [TELEGRAM_RETRY_TIME] \<and>
         poll_loop rt cfg (ev # evs) t st =
           poll_loop rt cfg evs t (sleep (logger Debug msg_no_new st2)) \<and>
         poll_loop rt cfg [ev] t st = (Running t, sleep (logger Debug msg_no_new st2)) \<and>
         poll_loop rt cfg (ev # ev2 # evs) t st =
           (case iteration rt cfg ev2 t (sleep (logger Debug msg_no_new st2)) of
              (Some e, c, s) \<Rightarrow> (Crashed e, s)
            | (None, c, s) \<Rightarrow> poll_loop rt cfg evs c s)"
proof -
  have tb: "try_body rt cfg ev t st = (Inl (Exn IndexError ''list index out of range''), st2)"
    using assms by (simp add: try_body_def getitem_def LAST_HOMEWORK_LIST_ID_def)
  have it: "iteration rt cfg ev t st = (None, t, sleep (logger Debug msg_no_new st2))"
    by (simp add: iteration_def tb)
  have one: "poll_loop rt cfg [ev] t st = (Running t, sleep (logger Debug msg_no_new st2))"
    by (simp add: it)
  have any: "poll_loop rt cfg (ev # evs) t st =
               poll_loop rt cfg evs t (sleep (logger Debug msg_no_new st2))"
    by (simp add: it)
  note nxt = poll_loop_next [OF it, of ev2 evs]
  from get_api_answer_frame [OF assms(1)] check_response_frame [OF assms(2)] it one any nxt
  show ?thesis
    by (simp add: TELEGRAM_RETRY_TIME_def)
qed

text \<open>
  An answer without homeworks, with a bot that could not send: one request, two debug
  lines, one sleep, nothing sent; and the loop, given two such passes, makes both and is
  still running.
\<close>

theorem empty_homeworks_pass_witness:
  "iteration example_runtime example_config (env_answer doc_empty bot_down bot_down) 1000 init_state
     = (None, 1000,
        init_state\<lparr>log := [(Debug, msg_checking), (Debug, msg_no_new)],
          requests := [\<lparr>url = ''https://example.org/api'', authorization = ''OAuth secret'',
                        from_date = 1000\<rparr>],
          sleeps := [600]\<rparr>) \<and>
   fst (poll_loop example_runtime example_config
          [env_answer doc_empty bot_down bot_down, env_answer doc_empty bot_down bot_down]
          1000 init_state) = Running 1000 \<and>
   sleeps (snd (poll_loop example_runtime example_config
          [env_answer doc_empty bot_down bot_down, env_answer doc_empty bot_down bot_down]
          1000 init_state)) = [600, 600] \<and>
   attempts (snd (poll_loop example_runtime example_config
          [env_answer doc_empty bot_down bot_down, env_answer doc_empty bot_down bot_down]
          1000 init_state)) = []"
proof -
  let ?ev = "env_answer doc_empty bot_down bot_down"
  let ?st0 = "init_state\<lparr>requests := [api_request example_config ?ev (Some 1000)]\<rparr>"
  have g: "get_api_answer example_runtime example_config ?ev (Some 1000) init_state
             = (Inr doc_empty, ?st0)"
    by (simp add: get_api_answer_def env_answer_def init_state_def Let_def)
  have c: "check_response doc_empty ?st0 = (Inr [], logger Debug msg_checking ?st0)"
    by (simp add: check_response_def doc_empty_def has_key_def dict_get_def)
  from empty_homeworks_pass [OF g c, of "[?ev]" ?ev]
  show ?thesis
    by (simp add: model_defs example_defs)
qed

lemma try_body_success_iff:
  "(\<exists>st'. try_body rt cfg ev t st = (Inr c, st')) \<longleftrightarrow>
   c = clock_after ev \<and>
   (\<exists>resp st1 homework st2 h message st3 st4.
      get_api_answer rt cfg ev (Some t) st = (Inr resp, st1) \<and>
      check_response resp st1 = (Inr homework, st2) \<and>
      getitem homework LAST_HOMEWORK_LIST_ID = Inr h \<and>
      parse_status rt (now_text ev) h st2 = (Inr message, st3) \<and>
      send_message rt (status_bot ev) message st3 = (Inr (), st4))"
  by (auto simp: try_body_def split: prod.splits sum.splits)

lemma iteration_timestamp:
  "fst (snd (iteration rt cfg ev t st)) =
     (case fst (try_body rt cfg ev t st) of Inr c \<Rightarrow> c | Inl e \<Rightarrow> t)"
  by (auto simp: iteration_def Let_def split: prod.splits sum.splits)

text \<open>
  The timestamp that a pass leaves to the next one is the clock read at line 160 when the
  request, the validation, the selection of the first homework, the formatting and the
  sending all returned; in every other case it is the timestamp the pass started with.
\<close>

lemma pass_timestamp:
  "fst (snd (iteration rt cfg ev t st)) =
     (if (\<exists>resp st1 homework st2 h message st3 st4.
            get_api_answer rt cfg ev (Some t) st = (Inr resp, st1) \<and>
            check_response resp st1 = (Inr homework, st2) \<and>
            getitem homework LAST_HOMEWORK_LIST_ID = Inr h \<and>
            parse_status rt (now_text ev) h st2 = (Inr message, st3) \<and>
            send_message rt (status_bot ev) message st3 = (Inr (), st4))
      then clock_after ev else t)"
proof -
  let ?P = "\<exists>resp st1 homework st2 h message st3 st4.
            get_api_answer rt cfg ev (Some t) st = (Inr resp, st1) \<and>
            check_response resp st1 = (Inr homework, st2) \<and>
            getitem homework LAST_HOMEWORK_LIST_ID = Inr h \<and>
            parse_status rt (now_text ev) h st2 = (Inr message, st3) \<and>
            send_message rt (status_bot ev) message st3 = (Inr (), st4)"
  have iff: "(\<exists>st'. try_body rt cfg ev t st = (Inr c, st')) \<longleftrightarrow> c = clock_after ev \<and> ?P"
    for c by (rule try_body_success_iff)
  show ?thesis
  proof (cases ?P)
    case True
    then have "clock_after ev = clock_after ev \<and> ?P"
      by (intro conjI refl)
    then have "\<exists>st'. try_body rt cfg ev t st = (Inr (clock_after ev), st')"
      by (rule iff [THEN iffD2])
    then obtain st' where "try_body rt cfg ev t st = (Inr (clock_after ev), st')" ..
    then have "fst (try_body rt cfg ev t st) = Inr (clock_after ev)"
      by simp
    then have "fst (snd (iteration rt cfg ev t st)) = clock_after ev"
      by (simp only: iteration_timestamp sum.case)
    also have "clock_after ev = (if ?P then clock_after ev else t)"
      using True by (rule if_P [symmetric])
    finally show ?thesis .
  next
    case False
    obtain r st' where r: "try_body rt cfg ev t st = (r, st')"
      by (cases "try_body rt cfg ev t st")
    have "\<exists>e. r = Inl e"
    proof (cases r)
      case (Inl e)
      then show ?thesis ..
    next
      case (Inr c)
      with r have "try_body rt cfg ev t st = (Inr c, st')"
        by simp
      then have "\<exists>st'. try_body rt cfg ev t st = (Inr c, st')" ..
      then have "c = clock_after ev \<and> ?P"
        by (rule iff [THEN iffD1])
      then have ?P ..
      with False show ?thesis ..
    qed
    then obtain e where "r = Inl e" ..
    with r have "fst (try_body rt cfg ev t st) = Inl e"
      by simp
    then have "fst (snd (iteration rt cfg ev t st)) = t"
      by (simp only: iteration_timestamp sum.case)
    also have "t = (if ?P then clock_after ev else t)"
      using False by (rule if_not_P [symmetric])
    finally show ?thesis .
  qed
qed

text \<open>
  C4, as the spec states it, fails: a timestamp that is kept is not always the
  \<open>from_date\<close> of the next fetch. Started when the clock reads 600, \<open>main\<close> begins
  with the timestamp 0; two passes that find no homework keep it, the loop is still
  running with 0, and the two fetches asked for 601 and for 1201, the clock of each pass.
\<close>

theorem kept_timestamp_zero_is_not_asked:
  "fst (main example_runtime example_config 600 [env_echo 601, env_echo 1201] init_state)
     = Running 0 \<and>
   map from_date
     (requests (snd (main example_runtime example_config 600 [env_echo 601, env_echo 1201]
                       init_state)))
     = [601, 1201]"
  by (simp add: model_defs example_defs)

text \<open>
  C4, amended: the timestamp that a pass leaves is the clock read at line 160 exactly when
  the request, the validation, the selection of the first homework, the formatting and the
  sending all returned, and in every other case, a step that raised or an empty list, it
  is the timestamp the pass started with. A pass makes one request, whose \<open>from_date\<close>
  is its timestamp, or the clock when the timestamp is 0. When the pass lets no exception
  out, the loop runs the next pass with the timestamp that was left, so that after a pass
  that did not complete the next fetch asks for the same timestamp again.
\<close>

theorem timestamp_after_pass_and_next_fetch:
  "fst (snd (iteration rt cfg ev t st)) =
     (if (\<exists>resp st1 homework st2 h message st3 st4.
            get_api_answer rt cfg ev (Some t) st = (Inr resp, st1) \<and>
            check_response resp st1 = (Inr homework, st2) \<and>
            getitem homework LAST_HOMEWORK_LIST_ID = Inr h \<and>
            parse_status rt (now_text ev) h st2 = (Inr message, st3) \<and>
            send_message rt (status_bot ev) message st3 = (Inr (), st4))
      then clock_after ev else t) \<and>
   requests (snd (snd (iteration rt cfg ev t st))) =
     requests st @
       [\<lparr>url = ENDPOINT cfg, authorization = HEADERS cfg,
         from_date = (if t \<noteq> 0 then t else clock ev)\<rparr>] \<and>
   (iteration rt cfg ev t st = (None, t', st') \<longrightarrow>
      poll_loop rt cfg (ev # ev2 # evs) t st =
        (case iteration rt cfg ev2 t' st' of
           (Some e, c, s) \<Rightarrow> (Crashed e, s)
         | (None, c, s) \<Rightarrow> poll_loop rt cfg evs c s) \<and>
      requests (snd (snd (iteration rt cfg ev2 t' st'))) =
        requests st @
          [\<lparr>url = ENDPOINT cfg, authorization = HEADERS cfg,
            from_date = (if t \<noteq> 0 then t else clock ev)\<rparr>,
           \<lparr>url = ENDPOINT cfg, authorization = HEADERS cfg,
            from_date = (if t' \<noteq> 0 then t' else clock ev2)\<rparr>])"
proof -
  have req: "api_request cfg w (Some c) =
               \<lparr>url = ENDPOINT cfg, authorization = HEADERS cfg,
                from_date = (if c \<noteq> 0 then c else clock w)\<rparr>" for w c
    by (simp add: api_request_def timestamp_or_now_def)
  have one: "requests (snd (snd (iteration rt cfg w c s))) =
               requests s @
                 [\<lparr>url = ENDPOINT cfg, authorization = HEADERS cfg,
                   from_date = (if c \<noteq> 0 then c else clock w)\<rparr>]" for w c s
    using iteration_requests [of rt cfg w c s] by (simp only: req)
  have nxt: "iteration rt cfg ev t st = (None, t', st') \<longrightarrow>
             poll_loop rt cfg (ev # ev2 # evs) t st =
               (case iteration rt cfg ev2 t' st' of
                  (Some e, c, s) \<Rightarrow> (Crashed e, s)
                | (None, c, s) \<Rightarrow> poll_loop rt cfg evs c s) \<and>
             requests (snd (snd (iteration rt cfg ev2 t' st'))) =
               requests st @
                 [\<lparr>url = ENDPOINT cfg, authorization = HEADERS cfg,
                   from_date = (if t \<noteq> 0 then t else clock ev)\<rparr>,
                  \<lparr>url = ENDPOINT cfg, authorization = HEADERS cfg,
                   from_date = (if t' \<noteq> 0 then t' else clock ev2)\<rparr>]"
  proof (intro impI conjI)
    assume it: "iteration rt cfg ev t st = (None, t', st')"
    show "poll_loop rt cfg (ev # ev2 # evs) t st =
            (case iteration rt cfg ev2 t' st' of
               (Some e, c, s) \<Rightarrow> (Crashed e, s)
             | (None, c, s) \<Rightarrow> poll_loop rt cfg evs c s)"
      using it by (rule poll_loop_next)
  next
    assume it: "iteration rt cfg ev t st = (None, t', st')"
    have "requests st' = requests st @
            [\<lparr>url = ENDPOINT cfg, authorization = HEADERS cfg,
              from_date = (if t \<noteq> 0 then t else clock ev)\<rparr>]"
      using one [of ev t st] it by simp
    then show "requests (snd (snd (iteration rt cfg ev2 t' st'))) =
            requests st @
              [\<lparr>url = ENDPOINT cfg, authorization = HEADERS cfg,
                from_date = (if t \<noteq> 0 then t else clock ev)\<rparr>,
               \<lparr>url = ENDPOINT cfg, authorization = HEADERS cfg,
                from_date = (if t' \<noteq> 0 then t' else clock ev2)\<rparr>]"
      using one [of ev2 t' st'] by simp
  qed
  from pass_timestamp [of rt cfg ev t st] one [of ev t st] nxt
  show ?thesis
    by (intro conjI)
qed

text \<open>
  A pass whose request fails keeps the timestamp 1000, the next pass asks for 1000 again,
  completes, and leaves the clock 5001. In the other order, the pass that completes leaves
  5001, which the next pass asks for and, its request failing, keeps.
\<close>

theorem timestamp_after_pass_and_next_fetch_witness:
  "fst (snd (iteration example_runtime example_config (env_unreachable bot_up bot_up)
               1000 init_state)) = 1000 \<and>
   fst (poll_loop example_runtime example_config
          [env_unreachable bot_up bot_up, env_answer doc_approved bot_up bot_up]
          1000 init_state) = Running 5001 \<and>
   map from_date
     (requests (snd (poll_loop example_runtime example_config
          [env_unreachable bot_up bot_up, env_answer doc_approved bot_up bot_up]
          1000 init_state))) = [1000, 1000] \<and>
   fst (poll_loop example_runtime example_config
          [env_answer doc_approved bot_up bot_up, env_unreachable bot_up bot_up]
          1000 init_state) = Running 5001 \<and>
   map from_date
     (requests (snd (poll_loop example_runtime example_config
          [env_answer doc_approved bot_up bot_up, env_unreachable bot_up bot_up]
          1000 init_state))) = [1000, 5001]"
  using timestamp_after_pass_and_next_fetch
          [of example_runtime example_config "env_unreachable bot_up bot_up" 1000 init_state
              1000
              "snd (snd (iteration example_runtime example_config
                           (env_unreachable bot_up bot_up) 1000 init_state))"
              "env_answer doc_approved bot_up bot_up" "[]"]
  by (simp add: model_defs example_defs)

text \<open>
  A pass lets an exception out in one case only: the body of the \<open>try\<close> raised an
  exception other than \<open>IndexError\<close>, the text of the failure is not cached, and the
  send of the error notification raised.
\<close>

lemma iteration_raises_iff:
  "fst (iteration rt cfg ev t st) \<noteq> None \<longleftrightarrow>
     (\<exists>e st1. try_body rt cfg ev t st = (Inl e, st1) \<and>
        \<not> catches rt IndexError e \<and>
        msg_failure @ str_exn rt e \<notin> set (cache_errors st1) \<and>
        error_bot ev (msg_failure @ str_exn rt e) \<noteq> None)"
proof (cases "try_body rt cfg ev t st")
  case (Pair r st1)
  show ?thesis
  proof (cases r)
    case (Inr c)
    with Pair show ?thesis by (simp add: iteration_def)
  next
    case (Inl e)
    show ?thesis
    proof (cases "catches rt IndexError e")
      case True
      with Pair Inl show ?thesis by (simp add: iteration_def)
    next
      case False
      with Pair Inl show ?thesis
        by (auto simp: iteration_def Let_def send_error_message_def send_message_def
              split: option.splits)
    qed
  qed
qed

text \<open>
  C1 fails on the code. When a step of the pass raises an exception other than
  \<open>IndexError\<close>, the clause of line 164 catches it and calls \<open>send_error_message\<close>;
  when the text is not cached and that send raises too, nothing catches the new exception:
  after the sleep of the \<open>finally\<close> clause it leaves \<open>main\<close> and the process ends.
\<close>

theorem main_crashes_when_error_notification_fails:
  assumes "check_tokens cfg st = (True, st0)"
    and "try_body rt cfg ev (start - TELEGRAM_RETRY_TIME) st0 = (Inl e, st1)"
    and "\<not> catches rt IndexError e"
    and "msg_failure @ str_exn rt e \<notin> set (cache_errors st1)"
    and "error_bot ev (msg_failure @ str_exn rt e) = Some e'"
  shows "\<exists>x st'. main rt cfg start (ev # evs) st = (Crashed x, st')"
proof -
  define message where "message = msg_failure @ str_exn rt e"
  define st2 where "st2 = logger Exception message st1"
  have "message \<notin> set (cache_errors st2)"
    using assms(4) by (simp add: st2_def message_def)
  moreover have "\<exists>x. fst (send_message rt (error_bot ev) message st2) = Inl x"
    using assms(5) by (simp add: send_message_def Let_def message_def)
  ultimately have "\<exists>x s. send_error_message rt (error_bot ev) message st2 = (Inl x, s)"
    by (cases "send_message rt (error_bot ev) message st2")
       (auto simp: send_error_message_def)
  then obtain x s where "send_error_message rt (error_bot ev) message st2 = (Inl x, s)"
    by blast
  then have "iteration rt cfg ev (start - TELEGRAM_RETRY_TIME) st0
               = (Some x, start - TELEGRAM_RETRY_TIME, sleep s)"
    using assms(2,3) by (simp add: iteration_def Let_def message_def st2_def)
  then show ?thesis
    using assms(1) by (simp add: main_def)
qed

text \<open>
  The failing input of C1: the API answers with an approved homework and the server of the
  bot cannot be reached. The status send raises, the error notification raises as well,
  and the first pass ends the process.
\<close>

theorem main_crashes_when_error_notification_fails_witness:
  "fst (main example_runtime example_config 1600
          [env_answer doc_approved bot_down bot_down, env_answer doc_approved bot_up bot_up]
          init_state)
     = Crashed (Exn (Library ''telegram.error.NetworkError'') ''network'')"
proof -
  let ?ev = "env_answer doc_approved bot_down bot_down"
  let ?e = "Exn (Library ''telegram.error.NetworkError'') ''network''"
  let ?st1 = "snd (try_body example_runtime example_config ?ev (1600 - TELEGRAM_RETRY_TIME) init_state)"
  have h1: "check_tokens example_config init_state = (True, init_state)"
    by (simp add: check_tokens_def is_set_def example_config_def)
  have "fst (try_body example_runtime example_config ?ev (1600 - TELEGRAM_RETRY_TIME) init_state)
          = Inl ?e"
    by (simp add: model_defs example_defs)
  then have h2: "try_body example_runtime example_config ?ev (1600 - TELEGRAM_RETRY_TIME) init_state
                   = (Inl ?e, ?st1)"
    by (simp add: prod_eq_iff)
  have h3: "\<not> catches example_runtime IndexError ?e"
    by (simp add: catches_def example_runtime_def)
  have h4: "msg_failure @ str_exn example_runtime ?e \<notin> set (cache_errors ?st1)"
    by (simp add: model_defs example_defs)
  have h5: "error_bot ?ev (msg_failure @ str_exn example_runtime ?e) = Some ?e"
    by (simp add: env_answer_def bot_down_def)
  from main_crashes_when_error_notification_fails [OF h1 h2 h3 h4 h5]
  obtain x st' where
    "main example_runtime example_config 1600
       [?ev, env_answer doc_approved bot_up bot_up] init_state = (Crashed x, st')"
    by blast
  moreover have "fst (main example_runtime example_config 1600
       [?ev, env_answer doc_approved bot_up bot_up] init_state) = Crashed ?e"
    by (simp add: model_defs example_defs)
  ultimately show ?thesis
    by simp
qed

end
